theory Spec2Isabelle
  imports Complex_Main "HOL-Library.Multiset" "HOL-Library.Product_Lexorder"
begin

section \<open>Python values used by the scorer and the recommender\<close>

text \<open>
  Texts are Python \<open>str\<close> values. A text is modelled as an Isabelle string; each
  \<^typ>\<open>char\<close> stands for one code point in the range U+0000 .. U+00FF, and the
  character classes below are Python's on that range. A parameter annotated \<open>str\<close>
  that the code tests with \<open>if not text\<close> is a \<^typ>\<open>string option\<close>: \<open>None\<close> is
  Python's \<open>None\<close>.
\<close>

type_synonym py_text = "string option"

datatype py_error = KeyError string | ZeroDivisionError | ValueError | TypeError | ModelError

text \<open>Sequencing of calls that may raise: the first exception ends the computation.\<close>

definition py_bind :: "py_error + 'a \<Rightarrow> ('a \<Rightarrow> py_error + 'b) \<Rightarrow> py_error + 'b" where
  "py_bind m f = (case m of Inl e \<Rightarrow> Inl e | Inr x \<Rightarrow> f x)"

text \<open>\<open>str.isspace\<close> and the regular-expression class \<open>\s\<close> (for \<open>str\<close> patterns).\<close>

definition py_isspace :: "char \<Rightarrow> bool" where
  "py_isspace c = (let n = (of_char c :: nat) in
     (9 \<le> n \<and> n \<le> 13) \<or> (28 \<le> n \<and> n \<le> 32) \<or> n = 133 \<or> n = 160)"

text \<open>The regular-expression class \<open>[a-zA-Z0-9]\<close>.\<close>

definition re_alnum :: "char \<Rightarrow> bool" where
  "re_alnum c = (let n = (of_char c :: nat) in
     (97 \<le> n \<and> n \<le> 122) \<or> (65 \<le> n \<and> n \<le> 90) \<or> (48 \<le> n \<and> n \<le> 57))"

text \<open>The characters \<open>a-z\<close> and \<open>0-9\<close>.\<close>

definition lower_alnum :: "char \<Rightarrow> bool" where
  "lower_alnum c = (let n = (of_char c :: nat) in
     (97 \<le> n \<and> n \<le> 122) \<or> (48 \<le> n \<and> n \<le> 57))"

text \<open>\<open>str.lower\<close>: \<open>A-Z\<close> and the upper-case letters of U+00C0 .. U+00DE.\<close>

definition py_lower_char :: "char \<Rightarrow> char" where
  "py_lower_char c = (let n = (of_char c :: nat) in
     if (65 \<le> n \<and> n \<le> 90) \<or> (192 \<le> n \<and> n \<le> 222 \<and> n \<noteq> 215)
     then char_of (n + 32) else c)"

definition py_lower :: "string \<Rightarrow> string" where
  "py_lower s = map py_lower_char s"

text \<open>\<open>str.isalpha\<close>: at least one character, and every character a letter.\<close>

definition py_isalpha_char :: "char \<Rightarrow> bool" where
  "py_isalpha_char c = (let n = (of_char c :: nat) in
     (65 \<le> n \<and> n \<le> 90) \<or> (97 \<le> n \<and> n \<le> 122) \<or> n = 170 \<or> n = 181 \<or> n = 186
     \<or> (192 \<le> n \<and> n \<le> 214) \<or> (216 \<le> n \<and> n \<le> 246) \<or> (248 \<le> n \<and> n \<le> 255))"

definition py_isalpha :: "string \<Rightarrow> bool" where
  "py_isalpha s = (s \<noteq> [] \<and> list_all py_isalpha_char s)"

text \<open>\<open>str.strip()\<close>: leading and trailing whitespace removed.\<close>

definition py_strip :: "string \<Rightarrow> string" where
  "py_strip s = rev (dropWhile py_isspace (rev (dropWhile py_isspace s)))"

text \<open>\<open>re.sub(r'[^a-zA-Z0-9\s]', ' ', text)\<close>: every character outside the class
  becomes one space.\<close>

definition re_sub_non_alnum_space :: "string \<Rightarrow> string" where
  "re_sub_non_alnum_space s =
     map (\<lambda>c. if re_alnum c \<or> py_isspace c then c else CHR '' '') s"

text \<open>\<open>re.sub(r'\s+', ' ', text)\<close>: every maximal run of whitespace becomes one
  space. The flag says that the previous character belonged to a run already replaced.\<close>

primrec re_sub_spaces_from :: "bool \<Rightarrow> string \<Rightarrow> string" where
  "re_sub_spaces_from in_run [] = []"
| "re_sub_spaces_from in_run (c # cs) =
     (if py_isspace c
      then (if in_run then re_sub_spaces_from True cs
            else CHR '' '' # re_sub_spaces_from True cs)
      else c # re_sub_spaces_from False cs)"

definition re_sub_spaces :: "string \<Rightarrow> string" where
  "re_sub_spaces s = re_sub_spaces_from False s"

section \<open>scorer.py: text normalisation\<close>

text \<open>\<open>EnhancedATSResumeScorer.preprocess_text\<close>.\<close>

definition preprocess_text :: "py_text \<Rightarrow> string" where
  "preprocess_text text =
     (case text of
        None \<Rightarrow> []
      | Some t \<Rightarrow>
          if t = [] then []
          else py_strip (re_sub_spaces (re_sub_non_alnum_space (py_lower t))))"

text \<open>
  The normaliser as the specification words it: lower-case the text, replace every
  character outside \<open>[a-zA-Z0-9 ]\<close> by a space, collapse runs of whitespace, trim.
\<close>

definition in_spec_class :: "char \<Rightarrow> bool" where
  "in_spec_class c = (re_alnum c \<or> c = CHR '' '')"

definition spec_normalize :: "py_text \<Rightarrow> string" where
  "spec_normalize text =
     (case text of
        None \<Rightarrow> []
      | Some t \<Rightarrow>
          py_strip (re_sub_spaces
            (map (\<lambda>c. if in_spec_class c then c else CHR '' '') (py_lower t))))"

section \<open>Python containers and numbers\<close>

text \<open>
  A \<open>dict\<close> keeps its keys in insertion order: it is an association list with distinct
  keys. \<open>d.get(k, default)\<close> and \<open>d[k] = v\<close> (which overwrites in place or appends).
\<close>

definition dict_get :: "('k \<times> 'v) list \<Rightarrow> 'k \<Rightarrow> 'v \<Rightarrow> 'v" where
  "dict_get d k dflt = (case map_of d k of None \<Rightarrow> dflt | Some v \<Rightarrow> v)"

primrec dict_set :: "('k \<times> 'v) list \<Rightarrow> 'k \<Rightarrow> 'v \<Rightarrow> ('k \<times> 'v) list" where
  "dict_set [] k v = [(k, v)]"
| "dict_set (p # ps) k v = (if fst p = k then (k, v) # ps else p # dict_set ps k v)"

text \<open>\<open>xs[:k]\<close>: a negative bound counts from the end.\<close>

definition py_slice_to :: "'a list \<Rightarrow> int \<Rightarrow> 'a list" where
  "py_slice_to xs k = (if 0 \<le> k then take (nat k) xs else take (length xs - nat (- k)) xs)"

text \<open>
  \<open>sorted(xs, key=f, reverse=True)\<close>: CPython reverses the list, sorts it stably in
  ascending key order and reverses the result, so that equal keys keep their order.
\<close>

definition py_sorted_reverse :: "('a \<Rightarrow> 'k::linorder) \<Rightarrow> 'a list \<Rightarrow> 'a list" where
  "py_sorted_reverse f xs = rev (sort_key f (rev xs))"

text \<open>
  A \<open>set\<close> is represented by a duplicate-free list of its elements; the order of that
  list carries no meaning. \<open>set(xs)\<close>, \<open>a - b\<close> and \<open>len(a & b)\<close>.
\<close>

definition py_set :: "'a list \<Rightarrow> 'a list" where
  "py_set xs = remdups xs"

definition py_set_difference :: "'a list \<Rightarrow> 'a list \<Rightarrow> 'a list" where
  "py_set_difference a b = filter (\<lambda>x. x \<notin> set b) a"

definition py_len_intersection :: "'a list \<Rightarrow> 'a list \<Rightarrow> nat" where
  "py_len_intersection a b = length (filter (\<lambda>x. x \<in> set b) a)"

text \<open>
  Floats are modelled as real numbers: rounding errors of the floating-point operations
  are not represented. \<open>round(x, n)\<close> rounds to \<open>n\<close> decimals, ties to even.
\<close>

definition round_half_even :: "real \<Rightarrow> int" where
  "round_half_even x =
     (let f = \<lfloor>x\<rfloor>; d = x - of_int f
      in if d < 1 / 2 then f else if 1 / 2 < d then f + 1
         else if even f then f else f + 1)"

definition py_round :: "real \<Rightarrow> nat \<Rightarrow> real" where
  "py_round x n = of_int (round_half_even (x * 10 ^ n)) / 10 ^ n"

text \<open>\<open>a / b\<close> on numbers raises \<open>ZeroDivisionError\<close> when \<open>b\<close> is zero.\<close>

definition py_truediv :: "real \<Rightarrow> real \<Rightarrow> py_error + real" where
  "py_truediv a b = (if b = 0 then Inl ZeroDivisionError else Inr (a / b))"

section \<open>scorer.py: the scorer object and its environment\<close>

text \<open>
  What the scorer takes from outside the repository: NLTK's \<open>word_tokenize\<close>, and the
  order in which CPython iterates over a set of strings (it depends on the strings'
  hashes, which vary from one process to the next).
\<close>

record py_runtime =
  word_tokenize :: "string \<Rightarrow> string list"
  set_iter :: "string list \<Rightarrow> string list"

text \<open>
  The fields of \<open>EnhancedATSResumeScorer\<close> that the analysis reads. \<open>vectorizer\<close> is
  \<open>self.vectorizer.transform([text])\<close>, one row of TF-IDF weights over the fitted
  vocabulary; \<open>hf_model\<close> is \<open>self.hf_model.encode([text])\<close>, or \<open>None\<close> when no
  embedding model was loaded. Both may raise.
\<close>

record scorer =
  stop_words :: "string set"
  vectorizer :: "string \<Rightarrow> py_error + real list"
  use_huggingface :: bool
  hf_model :: "(string \<Rightarrow> py_error + real list) option"

section \<open>scorer.py: keyword extraction\<close>

text \<open>The loop \<open>keyword_freq[keyword] = keyword_freq.get(keyword, 0) + 1\<close>.\<close>

primrec count_keywords :: "string list \<Rightarrow> (string \<times> nat) list \<Rightarrow> (string \<times> nat) list" where
  "count_keywords [] keyword_freq = keyword_freq"
| "count_keywords (keyword # rest) keyword_freq =
     count_keywords rest (dict_set keyword_freq keyword (dict_get keyword_freq keyword 0 + 1))"

text \<open>\<open>EnhancedATSResumeScorer.extract_keywords\<close>.\<close>

definition extract_keywords :: "py_runtime \<Rightarrow> scorer \<Rightarrow> py_text \<Rightarrow> int \<Rightarrow> string list" where
  "extract_keywords rt self text top_k =
     (case text of
        None \<Rightarrow> []
      | Some t \<Rightarrow>
          if t = [] then []
          else
            let tokens = word_tokenize rt (py_lower t);
                keywords = filter (\<lambda>token. token \<notin> stop_words self
                                      \<and> 2 < length token \<and> py_isalpha token) tokens;
                keyword_freq = count_keywords keywords [];
                sorted_keywords = py_sorted_reverse snd keyword_freq
            in map fst (py_slice_to sorted_keywords top_k))"

section \<open>scorer.py: similarity\<close>

text \<open>
  \<open>sklearn.metrics.pairwise.cosine_similarity\<close> on two rows: both are scaled to unit
  length (a zero row is left as it is) and multiplied; rows of different length are
  rejected.
\<close>

definition dot :: "real list \<Rightarrow> real list \<Rightarrow> real" where
  "dot x y = sum_list (map2 (*) x y)"

definition l2_normalize :: "real list \<Rightarrow> real list" where
  "l2_normalize x = (let n = sqrt (dot x x) in map (\<lambda>v. v / (if n = 0 then 1 else n)) x)"

definition cosine_similarity :: "real list \<Rightarrow> real list \<Rightarrow> py_error + real" where
  "cosine_similarity x y =
     (if length x \<noteq> length y then Inl ValueError
      else Inr (dot (l2_normalize x) (l2_normalize y)))"

text \<open>The body of the two \<open>try\<close> blocks: encode both texts, then the cosine.\<close>

definition encoded_similarity ::
  "(string \<Rightarrow> py_error + real list) \<Rightarrow> string \<Rightarrow> string \<Rightarrow> py_error + real" where
  "encoded_similarity enc resume_clean job_clean =
     (case enc resume_clean of
        Inl e \<Rightarrow> Inl e
      | Inr resume_vector \<Rightarrow>
          (case enc job_clean of
             Inl e \<Rightarrow> Inl e
           | Inr job_vector \<Rightarrow> cosine_similarity resume_vector job_vector))"

text \<open>\<open>EnhancedATSResumeScorer.calculate_tfidf_similarity\<close>.\<close>

definition calculate_tfidf_similarity :: "scorer \<Rightarrow> py_text \<Rightarrow> py_text \<Rightarrow> real" where
  "calculate_tfidf_similarity self resume_text job_description =
     (let resume_clean = preprocess_text resume_text;
          job_clean = preprocess_text job_description
      in if resume_clean = [] \<or> job_clean = [] then 0
         else (case encoded_similarity (vectorizer self) resume_clean job_clean of
                 Inl e \<Rightarrow> 0
               | Inr similarity \<Rightarrow> similarity))"

text \<open>\<open>EnhancedATSResumeScorer.calculate_huggingface_similarity\<close>.\<close>

definition calculate_huggingface_similarity :: "scorer \<Rightarrow> py_text \<Rightarrow> py_text \<Rightarrow> real" where
  "calculate_huggingface_similarity self resume_text job_description =
     (case hf_model self of
        None \<Rightarrow> 0
      | Some encode \<Rightarrow>
          let resume_clean = preprocess_text resume_text;
              job_clean = preprocess_text job_description
          in if resume_clean = [] \<or> job_clean = [] then 0
             else (case encoded_similarity encode resume_clean job_clean of
                     Inl e \<Rightarrow> 0
                   | Inr similarity \<Rightarrow> similarity))"

text \<open>The dictionary returned by \<open>calculate_hybrid_similarity\<close> has four fixed keys;
  \<open>method_label\<close> is its key \<open>method\<close>.\<close>

record similarity_results =
  combined_similarity :: real
  tfidf_similarity :: real
  huggingface_similarity :: real
  method_label :: string

text \<open>\<open>EnhancedATSResumeScorer.calculate_hybrid_similarity\<close>.\<close>

definition calculate_hybrid_similarity ::
  "scorer \<Rightarrow> py_text \<Rightarrow> py_text \<Rightarrow> similarity_results" where
  "calculate_hybrid_similarity self resume_text job_description =
     (let tfidf_sim = calculate_tfidf_similarity self resume_text job_description;
          hf_sim = (if use_huggingface self
                    then calculate_huggingface_similarity self resume_text job_description
                    else 0)
      in if use_huggingface self \<and> hf_model self \<noteq> None
         then \<lparr> combined_similarity = (7 / 10) * hf_sim + (3 / 10) * tfidf_sim,
                tfidf_similarity = tfidf_sim,
                huggingface_similarity = hf_sim,
                method_label = ''hybrid_huggingface_tfidf'' \<rparr>
         else \<lparr> combined_similarity = tfidf_sim,
                tfidf_similarity = tfidf_sim,
                huggingface_similarity = hf_sim,
                method_label = ''tfidf_only'' \<rparr>)"

section \<open>scorer.py: gap analysis and suggestions\<close>

text \<open>\<open>EnhancedATSResumeScorer.find_missing_keywords\<close>.\<close>

definition find_missing_keywords ::
  "py_runtime \<Rightarrow> scorer \<Rightarrow> py_text \<Rightarrow> py_text \<Rightarrow> string list" where
  "find_missing_keywords rt self resume_text job_description =
     (let resume_keywords = py_set (extract_keywords rt self resume_text 20);
          job_keywords = py_set (extract_keywords rt self job_description 20);
          missing_keywords = py_set_difference job_keywords resume_keywords
      in py_slice_to (set_iter rt missing_keywords) 10)"

text \<open>
  The suggestion texts are fixed messages, some with a pictograph in front; each is a
  constructor here. \<open>Add_missing\<close> carries the keywords joined into its text.
\<close>

datatype suggestion =
    Critical | Moderate | Good | Excellent
  | Add_missing "string list"
  | Include_technical_skills | Quantify_achievements | Tailor_experience
  | Error_in_analysis

text \<open>\<open>EnhancedATSResumeScorer.generate_suggestions\<close>.\<close>

definition generate_suggestions :: "string list \<Rightarrow> real \<Rightarrow> suggestion list" where
  "generate_suggestions missing_keywords ats_score =
     [if ats_score < 30 then Critical
      else if ats_score < 50 then Moderate
      else if ats_score < 70 then Good
      else Excellent]
     @ (if missing_keywords \<noteq> [] then [Add_missing (py_slice_to missing_keywords 5)] else [])
     @ (if ats_score < 60
        then [Include_technical_skills, Quantify_achievements, Tailor_experience]
        else [])"

section \<open>scorer.py: the analysis\<close>

text \<open>The values stored in the analysis dictionary.\<close>

datatype py_value =
    PyFloat real
  | PyStr string
  | PyBool bool
  | PyStrList "string list"
  | PySuggestions "suggestion list"

type_synonym py_dict = "(string \<times> py_value) list"

text \<open>Lines 266 and 267: the overlap count and the guarded division.\<close>

definition keyword_coverage_of :: "string list \<Rightarrow> string list \<Rightarrow> py_error + real" where
  "keyword_coverage_of resume_keywords job_keywords =
     (let keyword_overlap = py_len_intersection (py_set resume_keywords) (py_set job_keywords)
      in if job_keywords \<noteq> []
         then (case py_truediv (real keyword_overlap) (real (length job_keywords)) of
                 Inl e \<Rightarrow> Inl e
               | Inr q \<Rightarrow> Inr (q * 100))
         else Inr 0)"

text \<open>The \<open>try\<close> block of \<open>calculate_ats_score\<close>.\<close>

definition calculate_ats_score_try ::
  "py_runtime \<Rightarrow> scorer \<Rightarrow> py_text \<Rightarrow> py_text \<Rightarrow> py_error + py_dict" where
  "calculate_ats_score_try rt self resume_text job_description =
     (let similarity_results = calculate_hybrid_similarity self resume_text job_description;
          ats_score = combined_similarity similarity_results * 100;
          resume_keywords = extract_keywords rt self resume_text 20;
          job_keywords = extract_keywords rt self job_description 20;
          missing_keywords = find_missing_keywords rt self resume_text job_description
      in case keyword_coverage_of resume_keywords job_keywords of
           Inl e \<Rightarrow> Inl e
         | Inr keyword_coverage \<Rightarrow>
             let suggestions = generate_suggestions missing_keywords ats_score
             in Inr
               [(''ats_score'', PyFloat (py_round ats_score 2)),
                (''similarity_score'',
                   PyFloat (py_round (combined_similarity similarity_results) 4)),
                (''tfidf_similarity'',
                   PyFloat (py_round (tfidf_similarity similarity_results) 4)),
                (''huggingface_similarity'',
                   PyFloat (py_round (huggingface_similarity similarity_results) 4)),
                (''keyword_coverage'', PyFloat (py_round keyword_coverage 2)),
                (''resume_keywords'', PyStrList (py_slice_to resume_keywords 15)),
                (''job_keywords'', PyStrList (py_slice_to job_keywords 15)),
                (''missing_keywords'', PyStrList missing_keywords),
                (''suggestions'', PySuggestions suggestions),
                (''model_method'', PyStr (method_label similarity_results)),
                (''huggingface_available'', PyBool (use_huggingface self)),
                (''analysis_type'', PyStr ''enhanced_hybrid'')])"

text \<open>\<open>str(e)\<close> for the exceptions of the model.\<close>

fun py_str_of_error :: "py_error \<Rightarrow> string" where
  "py_str_of_error (KeyError k) = [CHR 0x27] @ k @ [CHR 0x27]"
| "py_str_of_error ZeroDivisionError = ''division by zero''"
| "py_str_of_error ValueError = ''ValueError''"
| "py_str_of_error TypeError = ''TypeError''"
| "py_str_of_error ModelError = ''ModelError''"

text \<open>\<open>EnhancedATSResumeScorer.calculate_ats_score\<close>: the \<open>try\<close> block, and the
  dictionary of the \<open>except\<close> branch.\<close>

definition calculate_ats_score ::
  "py_runtime \<Rightarrow> scorer \<Rightarrow> py_text \<Rightarrow> py_text \<Rightarrow> py_dict" where
  "calculate_ats_score rt self resume_text job_description =
     (case calculate_ats_score_try rt self resume_text job_description of
        Inr analysis \<Rightarrow> analysis
      | Inl e \<Rightarrow>
          [(''ats_score'', PyFloat 0),
           (''similarity_score'', PyFloat 0),
           (''tfidf_similarity'', PyFloat 0),
           (''huggingface_similarity'', PyFloat 0),
           (''keyword_coverage'', PyFloat 0),
           (''resume_keywords'', PyStrList []),
           (''job_keywords'', PyStrList []),
           (''missing_keywords'', PyStrList []),
           (''suggestions'', PySuggestions [Error_in_analysis]),
           (''model_method'', PyStr ''error''),
           (''huggingface_available'', PyBool False),
           (''analysis_type'', PyStr ''enhanced_hybrid''),
           (''error'', PyStr (py_str_of_error e))])"

section \<open>recommender.py: Python operations on strings and dictionaries\<close>

text \<open>\<open>sub in s\<close> on strings: \<open>sub\<close> occurs in \<open>s\<close> as a contiguous piece.\<close>

primrec py_in :: "string \<Rightarrow> string \<Rightarrow> bool" where
  "py_in sub [] = (sub = [])"
| "py_in sub (c # cs) = (take (length sub) (c # cs) = sub \<or> py_in sub cs)"

text \<open>\<open>sep.join(xs)\<close>.\<close>

fun py_join :: "string \<Rightarrow> string list \<Rightarrow> string" where
  "py_join sep [] = []"
| "py_join sep [x] = x"
| "py_join sep (x # y # ys) = x @ sep @ py_join sep (y # ys)"

text \<open>\<open>d[k].append(v)\<close>: a key that is not in the dictionary raises \<open>KeyError\<close>.\<close>

definition dict_append ::
  "(string \<times> 'a list) list \<Rightarrow> string \<Rightarrow> 'a \<Rightarrow> py_error + (string \<times> 'a list) list" where
  "dict_append d k v =
     (case map_of d k of
        None \<Rightarrow> Inl (KeyError k)
      | Some l \<Rightarrow> Inr (dict_set d k (l @ [v])))"

text \<open>
  \<open>analysis.get(key, default)\<close>, read at the type the recommender uses the value at.
  An entry of another type is outside the recommender's contract; the model answers
  \<open>TypeError\<close> for it.
\<close>

definition get_num :: "py_dict \<Rightarrow> string \<Rightarrow> real \<Rightarrow> py_error + real" where
  "get_num d k dflt =
     (case map_of d k of
        None \<Rightarrow> Inr dflt
      | Some (PyFloat r) \<Rightarrow> Inr r
      | Some (PyBool b) \<Rightarrow> Inr (if b then 1 else 0)
      | Some _ \<Rightarrow> Inl TypeError)"

definition get_str :: "py_dict \<Rightarrow> string \<Rightarrow> string \<Rightarrow> py_error + string" where
  "get_str d k dflt =
     (case map_of d k of
        None \<Rightarrow> Inr dflt
      | Some (PyStr s) \<Rightarrow> Inr s
      | Some _ \<Rightarrow> Inl TypeError)"

definition get_str_list :: "py_dict \<Rightarrow> string \<Rightarrow> string list \<Rightarrow> py_error + string list" where
  "get_str_list d k dflt =
     (case map_of d k of
        None \<Rightarrow> Inr dflt
      | Some (PyStrList l) \<Rightarrow> Inr l
      | Some _ \<Rightarrow> Inl TypeError)"

section \<open>recommender.py: the recommender\<close>

text \<open>\<open>self.keyword_categories\<close>, in the order of the dictionary literal.\<close>

definition keyword_categories :: "(string \<times> string list) list" where
  "keyword_categories =
     [(''action_verbs'',
        [''achieved'', ''developed'', ''implemented'', ''managed'', ''led'',
         ''created'', ''designed'', ''optimized'', ''improved'', ''increased'',
         ''reduced'', ''solved'', ''delivered'', ''executed'', ''coordinated'',
         ''collaborated'', ''analyzed'', ''researched'', ''innovated'', ''transformed'']),
      (''technical_skills'',
        [''programming'', ''software development'', ''database management'',
         ''cloud computing'', ''machine learning'', ''data analysis'',
         ''web development'', ''mobile development'', ''devops'', ''agile'',
         ''scrum'', ''version control'', ''api development'', ''microservices'']),
      (''soft_skills'',
        [''leadership'', ''communication'', ''problem solving'', ''teamwork'',
         ''project management'', ''time management'', ''adaptability'',
         ''critical thinking'', ''creativity'', ''attention to detail'']),
      (''quantifiers'',
        [''increased by'', ''reduced by'', ''improved by'', ''achieved'',
         ''managed'', ''led team of'', ''budget of'', ''revenue of'',
         ''saved'', ''generated'', ''delivered'', ''completed''])]"

text \<open>\<open>ResumeRecommender._determine_priority\<close>.\<close>

definition determine_priority :: "real \<Rightarrow> string" where
  "determine_priority ats_score =
     (if ats_score < 30 then ''high''
      else if ats_score < 60 then ''medium''
      else ''low'')"

text \<open>One of the four section checks of \<open>_analyze_sections\<close>.\<close>

record section_info =
  present :: bool
  section_recommendations :: "string list"

definition check_section :: "string \<Rightarrow> string list \<Rightarrow> string \<Rightarrow> section_info" where
  "check_section resume_text headers advice =
     (if list_ex (\<lambda>word. py_in word resume_text) headers
      then \<lparr> present = True, section_recommendations = [] \<rparr>
      else \<lparr> present = False, section_recommendations = [advice] \<rparr>)"

text \<open>\<open>ResumeRecommender._analyze_sections\<close>.\<close>

definition analyze_sections :: "py_dict \<Rightarrow> py_error + (string \<times> section_info) list" where
  "analyze_sections analysis =
     py_bind (get_str analysis ''resume_text'' [])
       (\<lambda>raw. let resume_text = py_lower raw in
          Inr [(''summary'',
                  check_section resume_text [''summary'', ''objective'', ''profile'']
                    ''Add a professional summary section''),
               (''experience'',
                  check_section resume_text [''experience'', ''employment'', ''work history'']
                    ''Add work experience section''),
               (''skills'',
                  check_section resume_text [''skills'', ''technical skills'', ''competencies'']
                    ''Add skills section''),
               (''education'',
                  check_section resume_text [''education'', ''academic'', ''degree'']
                    ''Add education section'')])"

text \<open>The inner loop of \<open>_categorize_keywords\<close>: the first category, in dictionary
  order, one of whose entries occurs in the keyword.\<close>

primrec first_matching_category ::
  "(string \<times> string list) list \<Rightarrow> string \<Rightarrow> string option" where
  "first_matching_category [] keyword_lower = None"
| "first_matching_category (item # items) keyword_lower =
     (if list_ex (\<lambda>cat_kw. py_in cat_kw keyword_lower) (snd item) then Some (fst item)
      else first_matching_category items keyword_lower)"

text \<open>The outer loop of \<open>_categorize_keywords\<close>.\<close>

primrec categorize_loop ::
  "string list \<Rightarrow> (string \<times> string list) list \<Rightarrow> py_error + (string \<times> string list) list" where
  "categorize_loop [] categorized = Inr categorized"
| "categorize_loop (keyword # rest) categorized =
     (let keyword_lower = py_lower keyword
      in py_bind
           (case first_matching_category keyword_categories keyword_lower of
              Some category \<Rightarrow> dict_append categorized category keyword
            | None \<Rightarrow> dict_append categorized ''other'' keyword)
           (categorize_loop rest))"

text \<open>\<open>ResumeRecommender._categorize_keywords\<close>.\<close>

definition categorize_keywords ::
  "string list \<Rightarrow> py_error + (string \<times> string list) list" where
  "categorize_keywords keywords =
     categorize_loop keywords
       [(''technical'', []), (''action_verbs'', []), (''soft_skills'', []),
        (''quantifiers'', []), (''other'', [])]"

record keyword_analysis =
  missing_count :: nat
  present_count :: nat
  keyword_recommendations :: "string list"
  suggested_additions :: "string list"
  keyword_optimization_tips :: "string list"

text \<open>The loop of \<open>_analyze_keywords\<close> over the categories: the advice line and the
  suggested additions of every non-empty category.\<close>

primrec category_advice ::
  "(string \<times> string list) list \<Rightarrow> string list \<times> string list \<Rightarrow> string list \<times> string list" where
  "category_advice [] acc = acc"
| "category_advice (item # items) acc =
     (if snd item \<noteq> []
      then category_advice items
             (fst acc @ [''Add '' @ fst item @ '' keywords: ''
                          @ py_join '', '' (py_slice_to (snd item) 3)],
              snd acc @ py_slice_to (snd item) 5)
      else category_advice items acc)"

text \<open>\<open>ResumeRecommender._analyze_keywords\<close>.\<close>

definition analyze_keywords :: "string list \<Rightarrow> string list \<Rightarrow> py_error + keyword_analysis" where
  "analyze_keywords missing_keywords resume_keywords =
     py_bind (categorize_keywords missing_keywords)
       (\<lambda>missing_by_category.
          let advice = category_advice missing_by_category ([], [])
          in Inr \<lparr> missing_count = length missing_keywords,
                   present_count = length resume_keywords,
                   keyword_recommendations = fst advice,
                   suggested_additions = snd advice,
                   keyword_optimization_tips =
                     (if length resume_keywords < 10
                      then [''Increase keyword density by including more relevant technical terms'']
                      else [])
                     @ (if 10 < length missing_keywords
                        then [''Focus on adding the most important missing keywords first'']
                        else []) \<rparr>)"

record format_analysis =
  format_recommendations :: "string list"
  format_warnings :: "string list"
  format_tips :: "string list"

text \<open>\<open>ResumeRecommender._analyze_format\<close>.\<close>

definition analyze_format :: "py_dict \<Rightarrow> py_error + format_analysis" where
  "analyze_format analysis =
     py_bind (get_str analysis ''resume_text'' [])
       (\<lambda>resume_text.
     py_bind (get_num analysis ''resume_word_count'' 0)
       (\<lambda>word_count.
          Inr \<lparr> format_recommendations =
                   [''Use standard section headers (Experience, Education, Skills)'',
                    ''Use bullet points for easy scanning'',
                    ''Keep formatting simple and consistent'',
                    ''Use standard fonts (Arial, Calibri, Times New Roman)''],
                 format_warnings =
                   (if word_count < 200
                    then [''Resume is too short - consider adding more detail'']
                    else if 800 < word_count
                    then [''Resume is too long - consider condensing content'']
                    else []),
                 format_tips =
                   (if py_in ''  '' resume_text
                    then [''Remove extra spaces for better ATS parsing''] else [])
                   @ (if py_in [CHR 0x09] resume_text
                      then [''Replace tabs with spaces for better ATS compatibility'']
                      else []) \<rparr>))"

record content_analysis =
  content_recommendations :: "string list"
  content_strengths :: "string list"
  content_improvements :: "string list"

text \<open>\<open>ResumeRecommender._analyze_content\<close>.\<close>

definition analyze_content :: "py_dict \<Rightarrow> py_error + content_analysis" where
  "analyze_content analysis =
     py_bind (get_num analysis ''ats_score'' 0)
       (\<lambda>ats_score.
          Inr \<lparr> content_recommendations =
                   [''Use action verbs to start bullet points'',
                    ''Include specific technologies and tools'',
                    ''Quantify achievements with numbers'',
                    ''Tailor content to the specific job posting'',
                    ''Use industry-specific terminology''],
                 content_strengths =
                   (if ats_score < 50 then []
                    else if ats_score < 70 then []
                    else [''Good keyword alignment with job requirements'']),
                 content_improvements =
                   (if ats_score < 50
                    then [''Rewrite job descriptions to match the target role'',
                          ''Include specific technologies and tools mentioned in the job posting'',
                          ''Quantify achievements with numbers and metrics'']
                    else if ats_score < 70
                    then [''Fine-tune keyword usage to better match job requirements'',
                          ''Add more specific technical details'',
                          ''Include more quantifiable achievements'']
                    else []) \<rparr>)"

record ats_analysis =
  ats_recommendations :: "string list"
  critical_issues :: "string list"
  ats_optimization_tips :: "string list"

text \<open>\<open>ResumeRecommender._analyze_ats_optimization\<close>.\<close>

definition analyze_ats_optimization :: "py_dict \<Rightarrow> py_error + ats_analysis" where
  "analyze_ats_optimization analysis =
     py_bind (get_str analysis ''resume_text'' [])
       (\<lambda>resume_text.
          Inr \<lparr> ats_recommendations =
                   [''Use standard section headers'',
                    ''Avoid tables and complex formatting'',
                    ''Use simple bullet points'',
                    ''Include relevant keywords naturally'',
                    ''Save as PDF for best compatibility''],
                 critical_issues =
                   (if list_ex (\<lambda>chr. py_in chr resume_text) [[CHR 0x09], ''  '']
                    then [''Remove tabs and extra spaces''] else [])
                   @ (if list_ex (\<lambda>c. 127 < (of_char c :: nat)) resume_text
                      then [''Remove special characters and symbols''] else []),
                 ats_optimization_tips =
                   [''Test your resume with ATS checkers'',
                    ''Use keywords from the job description'',
                    ''Keep formatting simple and clean'',
                    ''Use standard fonts and sizes'',
                    ''Avoid graphics and images''] \<rparr>)"

record recommendations =
  priority :: string
  sections :: "(string \<times> section_info) list"
  keywords_analysis :: keyword_analysis
  format :: format_analysis
  content :: content_analysis
  ats_optimization :: ats_analysis
  overall_score :: int

text \<open>\<open>ResumeRecommender._calculate_recommendation_score\<close>, on the parts it reads.\<close>

definition calculate_recommendation_score ::
  "string \<Rightarrow> (string \<times> section_info) list \<Rightarrow> keyword_analysis \<Rightarrow> int" where
  "calculate_recommendation_score prio secs kws =
     (let score = 100;
          score = (if prio = ''high'' then score - 30
                   else if prio = ''medium'' then score - 15 else score);
          missing_sections = length (filter (\<lambda>section. \<not> present (snd section)) secs);
          score = score - int missing_sections * 10;
          score = (if 10 < missing_count kws then score - 20
                   else if 5 < missing_count kws then score - 10 else score)
      in max 0 (min 100 score))"

text \<open>\<open>ResumeRecommender.generate_recommendations\<close>. The three values read at the
  top are used by the priority and by the keyword advice.\<close>

definition generate_recommendations :: "py_dict \<Rightarrow> py_error + recommendations" where
  "generate_recommendations analysis =
     py_bind (get_num analysis ''ats_score'' 0) (\<lambda>ats_score.
     py_bind (get_str_list analysis ''missing_keywords'' []) (\<lambda>missing_keywords.
     py_bind (get_str_list analysis ''resume_keywords'' []) (\<lambda>resume_keywords.
     let prio = determine_priority ats_score in
     py_bind (analyze_sections analysis) (\<lambda>secs.
     py_bind (analyze_keywords missing_keywords resume_keywords) (\<lambda>kws.
     py_bind (analyze_format analysis) (\<lambda>fmt.
     py_bind (analyze_content analysis) (\<lambda>cnt.
     py_bind (analyze_ats_optimization analysis) (\<lambda>ats.
       Inr \<lparr> priority = prio,
              sections = secs,
              keywords_analysis = kws,
              format = fmt,
              content = cnt,
              ats_optimization = ats,
              overall_score = calculate_recommendation_score prio secs kws \<rparr>))))))))"

section \<open>The specification's wording of the keyword operations\<close>

text \<open>
  The tokens that survive the filter, as the specification words it: a token is discarded
  when it is a stopword, shorter than three characters, or not purely alphabetic.
\<close>

definition spec_candidates :: "py_runtime \<Rightarrow> scorer \<Rightarrow> py_text \<Rightarrow> string list" where
  "spec_candidates rt self text =
     (case text of
        None \<Rightarrow> []
      | Some t \<Rightarrow>
          if t = [] then []
          else filter (\<lambda>token. \<not> (token \<in> stop_words self \<or> length token < 3
                                   \<or> \<not> py_isalpha token))
                 (word_tokenize rt (py_lower t)))"

text \<open>Position of the first occurrence of a token.\<close>

definition first_index :: "'a list \<Rightarrow> 'a \<Rightarrow> nat" where
  "first_index ws w = length (takeWhile (\<lambda>x. x \<noteq> w) ws)"

text \<open>
  The ranking as the specification words it: the distinct tokens, sorted by frequency
  descending, ties broken by the position of the first occurrence. The sort key is the
  pair, ordered lexicographically.
\<close>

definition spec_ranked :: "string list \<Rightarrow> string list" where
  "spec_ranked ws =
     sort_key (\<lambda>w. (- int (count_list ws w), first_index ws w)) (remdups ws)"

text \<open>
  The missing keywords as the specification words them: the job keywords that are not
  resume keywords, in the job keywords' ranking (frequency descending), first ten.
\<close>

definition spec_missing :: "py_runtime \<Rightarrow> scorer \<Rightarrow> py_text \<Rightarrow> py_text \<Rightarrow> string list" where
  "spec_missing rt self resume_text job_description =
     take 10 (filter (\<lambda>k. k \<notin> set (extract_keywords rt self resume_text 20))
                (extract_keywords rt self job_description 20))"

text \<open>Frequency of a keyword among the job description's candidate tokens.\<close>

definition job_frequency :: "py_runtime \<Rightarrow> scorer \<Rightarrow> py_text \<Rightarrow> string \<Rightarrow> nat" where
  "job_frequency rt self job_description k =
     count_list (spec_candidates rt self job_description) k"

text \<open>An iteration order is admissible when it lists exactly the elements of the set,
  each once.\<close>

definition admissible_set_iter :: "py_runtime \<Rightarrow> bool" where
  "admissible_set_iter rt =
     (\<forall>xs. distinct xs \<longrightarrow> distinct (set_iter rt xs) \<and> set (set_iter rt xs) = set xs)"

text \<open>Reading a list of strings out of the analysis dictionary.\<close>

definition field_str_list :: "py_dict \<Rightarrow> string \<Rightarrow> string list" where
  "field_str_list d k = (case map_of d k of Some (PyStrList l) \<Rightarrow> l | _ \<Rightarrow> [])"

text \<open>The result of the section analysis when no canonical header is found.\<close>

definition all_sections_absent :: "(string \<times> section_info) list" where
  "all_sections_absent =
     [(''summary'',
         \<lparr> present = False,
           section_recommendations = [''Add a professional summary section''] \<rparr>),
      (''experience'',
         \<lparr> present = False, section_recommendations = [''Add work experience section''] \<rparr>),
      (''skills'',
         \<lparr> present = False, section_recommendations = [''Add skills section''] \<rparr>),
      (''education'',
         \<lparr> present = False, section_recommendations = [''Add education section''] \<rparr>)]"

text \<open>TF-IDF weights are non-negative: a property of the fitted vectorizer, which the
  scorer does not check.\<close>

definition nonneg_weights :: "scorer \<Rightarrow> bool" where
  "nonneg_weights self =
     (\<forall>s v. vectorizer self s = Inr v \<longrightarrow> (\<forall>x \<in> set v. 0 \<le> x))"

text \<open>The keys of the dictionary that \<open>_categorize_keywords\<close> fills.\<close>

definition result_categories :: "string list" where
  "result_categories =
     [''technical'', ''action_verbs'', ''soft_skills'', ''quantifiers'', ''other'']"

section \<open>Concrete inputs\<close>

text \<open>
  A tokenizer for the examples: the words between whitespace. On lower-case words
  separated by single spaces it returns what \<open>word_tokenize\<close> returns.
\<close>

primrec split_words_from :: "string \<Rightarrow> string \<Rightarrow> string list" where
  "split_words_from cur [] = (if cur = [] then [] else [cur])"
| "split_words_from cur (c # cs) =
     (if py_isspace c
      then (if cur = [] then split_words_from [] cs else cur # split_words_from [] cs)
      else split_words_from (cur @ [c]) cs)"

definition split_words :: "string \<Rightarrow> string list" where
  "split_words s = split_words_from [] s"

text \<open>Two runtimes: one iterates a set in the order of its representation, the other
  in the opposite order.\<close>

definition example_runtime :: py_runtime where
  "example_runtime = \<lparr> word_tokenize = split_words, set_iter = (\<lambda>xs. xs) \<rparr>"

definition reversing_runtime :: py_runtime where
  "reversing_runtime = \<lparr> word_tokenize = split_words, set_iter = rev \<rparr>"

text \<open>
  A scorer for the examples: a vocabulary of three terms weighted by their counts, and
  an embedding model with two-dimensional unit vectors.
\<close>

definition example_vectorizer :: "string \<Rightarrow> py_error + real list" where
  "example_vectorizer s =
     Inr (map (\<lambda>w. real (count_list (split_words s) w)) [''python'', ''django'', ''aws''])"

definition example_encode :: "string \<Rightarrow> py_error + real list" where
  "example_encode s =
     Inr (if py_in ''python'' s then [1, 0]
          else if py_in ''django'' s then [3 / 5, 4 / 5]
          else [- (3 / 5), 4 / 5])"

definition example_scorer :: scorer where
  "example_scorer =
     \<lparr> stop_words = {''the'', ''and'', ''with'', ''for''},
       vectorizer = example_vectorizer,
       use_huggingface = True,
       hf_model = Some example_encode \<rparr>"

definition lexical_scorer :: scorer where
  "lexical_scorer =
     \<lparr> stop_words = {''the'', ''and'', ''with'', ''for''},
       vectorizer = example_vectorizer,
       use_huggingface = False,
       hf_model = None \<rparr>"

text \<open>A job description with sixteen distinct keywords, and a resume with the first
  fifteen of them.\<close>

definition sixteen_keywords_job :: string where
  "sixteen_keywords_job =
     ''python django flask docker kubernetes terraform jenkins linux '' @
     ''react angular node mongodb redis kafka spark airflow''"

definition fifteen_keywords_resume :: string where
  "fifteen_keywords_resume =
     ''python django flask docker kubernetes terraform jenkins linux '' @
     ''react angular node mongodb redis kafka spark''"

section \<open>Properties of text normalisation\<close>

lemma py_isspace_space: "py_isspace (CHR '' '')"
  by (simp add: py_isspace_def)

lemma re_sub_spaces_from_class:
  "re_sub_spaces_from b (map (\<lambda>c. if in_spec_class c then c else CHR '' '') s) =
   re_sub_spaces_from b (re_sub_non_alnum_space s)"
proof (induction s arbitrary: b)
  case Nil
  show ?case by (simp add: re_sub_non_alnum_space_def)
next
  case (Cons c cs)
  have tail: "\<And>b'. re_sub_spaces_from b' (map (\<lambda>c. if in_spec_class c then c else CHR '' '') cs) =
      re_sub_spaces_from b' (map (\<lambda>c. if re_alnum c \<or> py_isspace c then c else CHR '' '') cs)"
    using Cons.IH by (simp add: re_sub_non_alnum_space_def)
  show ?case
  proof (cases "py_isspace c")
    case True
    then show ?thesis
      using tail by (simp add: re_sub_non_alnum_space_def in_spec_class_def py_isspace_space)
  next
    case False
    then have "c \<noteq> CHR '' ''" using py_isspace_space by auto
    with False show ?thesis
      using tail by (simp add: re_sub_non_alnum_space_def in_spec_class_def py_isspace_space)
  qed
qed

lemma py_strip_Nil: "py_strip [] = []"
  by (simp add: py_strip_def)

lemma py_lower_char_not_upper:
  "re_alnum (py_lower_char c) \<Longrightarrow> lower_alnum (py_lower_char c)"
proof -
  assume a: "re_alnum (py_lower_char c)"
  define n where "n = (of_char c :: nat)"
  have n: "n < 256" unfolding n_def by (rule nat_of_char_less_256)
  show ?thesis
  proof (cases "(65 \<le> n \<and> n \<le> 90) \<or> (192 \<le> n \<and> n \<le> 222 \<and> n \<noteq> 215)")
    case True
    then have "py_lower_char c = char_of (n + 32)"
      by (auto simp add: py_lower_char_def n_def Let_def)
    moreover from True have "(of_char (char_of (n + 32) :: char) :: nat) = n + 32"
      by (auto simp add: of_char_of)
    ultimately show ?thesis using a True
      by (auto simp add: re_alnum_def lower_alnum_def)
  next
    case False
    then have "py_lower_char c = c" by (auto simp add: py_lower_char_def n_def Let_def)
    with a False show ?thesis
      by (auto simp add: re_alnum_def lower_alnum_def n_def)
  qed
qed

lemma re_sub_spaces_from_chars:
  "x \<in> set (re_sub_spaces_from b s) \<Longrightarrow> x = CHR '' '' \<or> (x \<in> set s \<and> \<not> py_isspace x)"
  by (induction s arbitrary: b) (auto split: if_splits)

lemma set_py_strip: "set (py_strip s) \<subseteq> set s"
proof -
  have "set (py_strip s) = set (dropWhile py_isspace (rev (dropWhile py_isspace s)))"
    by (simp add: py_strip_def)
  also have "\<dots> \<subseteq> set (rev (dropWhile py_isspace s))" by (rule set_dropWhileD [THEN subsetI])
  also have "\<dots> \<subseteq> set s" using set_dropWhileD by fastforce
  finally show ?thesis .
qed

lemma preprocess_text_chars:
  "x \<in> set (preprocess_text text) \<Longrightarrow> lower_alnum x \<or> x = CHR '' ''"
proof -
  assume x: "x \<in> set (preprocess_text text)"
  then obtain t where t: "text = Some t" "t \<noteq> []"
    by (cases "text") (auto simp add: preprocess_text_def split: if_splits)
  with x have "x \<in> set (py_strip (re_sub_spaces (re_sub_non_alnum_space (py_lower t))))"
    by (simp add: preprocess_text_def)
  then have "x \<in> set (re_sub_spaces_from False (re_sub_non_alnum_space (py_lower t)))"
    using set_py_strip by (auto simp add: re_sub_spaces_def)
  then have "x = CHR '' '' \<or> (x \<in> set (re_sub_non_alnum_space (py_lower t)) \<and> \<not> py_isspace x)"
    by (rule re_sub_spaces_from_chars)
  then show ?thesis
  proof
    assume "x = CHR '' ''"
    then show ?thesis by simp
  next
    assume "x \<in> set (re_sub_non_alnum_space (py_lower t)) \<and> \<not> py_isspace x"
    then obtain c where "c \<in> set t" and "re_alnum (py_lower_char c)" and "x = py_lower_char c"
      by (auto simp add: re_sub_non_alnum_space_def py_lower_def py_isspace_space
          split: if_splits)
    then show ?thesis using py_lower_char_not_upper by simp
  qed
qed

lemma re_sub_spaces_from_single:
  "successively (\<lambda>a b. \<not> (py_isspace a \<and> py_isspace b)) (re_sub_spaces_from b s)
   \<and> (b \<longrightarrow> re_sub_spaces_from b s = [] \<or> \<not> py_isspace (hd (re_sub_spaces_from b s)))"
proof (induction s arbitrary: b)
  case Nil
  show ?case by simp
next
  case (Cons c s)
  show ?case
  proof (cases "py_isspace c")
    case True
    show ?thesis
    proof (cases b)
      case True
      with \<open>py_isspace c\<close> Cons.IH [of True] show ?thesis by simp
    next
      case False
      with \<open>py_isspace c\<close> Cons.IH [of True] show ?thesis
        by (cases "re_sub_spaces_from True s") (auto simp add: successively_Cons)
    qed
  next
    case False
    with Cons.IH [of False] show ?thesis
      by (cases "re_sub_spaces_from False s") (auto simp add: successively_Cons)
  qed
qed

lemma successively_dropWhile_keep:
  "successively P xs \<Longrightarrow> successively P (dropWhile Q xs)"
  by (induction xs rule: induct_list012) (auto simp add: successively_Cons)

lemma successively_py_strip:
  assumes "successively (\<lambda>a b. \<not> (py_isspace a \<and> py_isspace b)) s"
  shows "successively (\<lambda>a b. \<not> (py_isspace a \<and> py_isspace b)) (py_strip s)"
proof -
  let ?P = "\<lambda>a b. \<not> (py_isspace a \<and> py_isspace b)"
  have flip: "\<And>xs. successively ?P xs \<Longrightarrow> successively ?P (rev xs)"
  proof -
    fix xs :: string
    assume "successively ?P xs"
    then have "successively (\<lambda>x y. ?P y x) xs"
      by (rule successively_mono) blast
    then show "successively ?P (rev xs)"
      by (simp only: successively_rev)
  qed
  have "successively ?P (dropWhile py_isspace s)"
    using assms by (rule successively_dropWhile_keep)
  then have "successively ?P (rev (dropWhile py_isspace s))"
    by (rule flip)
  then have "successively ?P (dropWhile py_isspace (rev (dropWhile py_isspace s)))"
    by (rule successively_dropWhile_keep)
  then have "successively ?P (rev (dropWhile py_isspace (rev (dropWhile py_isspace s))))"
    by (rule flip)
  then show ?thesis by (simp only: py_strip_def)
qed

lemma last_dropWhile_keep: "dropWhile Q xs \<noteq> [] \<Longrightarrow> last (dropWhile Q xs) = last xs"
  by (induction xs) (auto split: if_splits)

lemma py_strip_ends:
  "py_strip s = [] \<or> (\<not> py_isspace (hd (py_strip s)) \<and> \<not> py_isspace (last (py_strip s)))"
proof (cases "py_strip s = []")
  case True
  then show ?thesis by simp
next
  case False
  define u where "u = dropWhile py_isspace s"
  define v where "v = dropWhile py_isspace (rev u)"
  have ps: "py_strip s = rev v" by (simp add: py_strip_def u_def v_def)
  with False have v: "v \<noteq> []" by simp
  then have hv: "\<not> py_isspace (hd v)" unfolding v_def by (rule hd_dropWhile)
  have last_ok: "\<not> py_isspace (last (rev v))" using v hv by (simp add: last_rev)
  have "rev u \<noteq> []" using v by (auto simp add: v_def)
  then have u: "u \<noteq> []" by simp
  then have hu: "\<not> py_isspace (hd u)" unfolding u_def by (rule hd_dropWhile)
  have "last (rev u) = hd u" using u by (simp add: last_rev)
  moreover have "last v = last (rev u)"
    using v unfolding v_def by (rule last_dropWhile_keep)
  ultimately have "\<not> py_isspace (last v)" using hu by simp
  then have "\<not> py_isspace (hd (rev v))" using v by (simp add: hd_rev)
  with last_ok ps show ?thesis by simp
qed

lemma preprocess_text_unfold:
  "preprocess_text text = [] \<or>
   (\<exists>s. preprocess_text text = py_strip (re_sub_spaces_from False s))"
  by (cases "text") (auto simp add: preprocess_text_def re_sub_spaces_def)

lemma preprocess_text_single_spaces:
  "successively (\<lambda>a b. \<not> (a = CHR '' '' \<and> b = CHR '' '')) (preprocess_text text)"
proof -
  from preprocess_text_unfold [of "text"] show ?thesis
  proof
    assume "preprocess_text text = []"
    then show ?thesis by simp
  next
    assume "\<exists>s. preprocess_text text = py_strip (re_sub_spaces_from False s)"
    then obtain s where s: "preprocess_text text = py_strip (re_sub_spaces_from False s)" ..
    have "successively (\<lambda>a b. \<not> (py_isspace a \<and> py_isspace b)) (re_sub_spaces_from False s)"
      using re_sub_spaces_from_single [of False s] by simp
    then have "successively (\<lambda>a b. \<not> (py_isspace a \<and> py_isspace b)) (preprocess_text text)"
      unfolding s by (rule successively_py_strip)
    then show ?thesis
      by (rule successively_mono) (auto simp add: py_isspace_space)
  qed
qed

lemma preprocess_text_trimmed:
  "preprocess_text text = [] \<or>
   (hd (preprocess_text text) \<noteq> CHR '' '' \<and> last (preprocess_text text) \<noteq> CHR '' '')"
proof -
  from preprocess_text_unfold [of "text"] show ?thesis
  proof
    assume "preprocess_text text = []"
    then show ?thesis by simp
  next
    assume "\<exists>s. preprocess_text text = py_strip (re_sub_spaces_from False s)"
    then obtain s where s: "preprocess_text text = py_strip (re_sub_spaces_from False s)" ..
    from py_strip_ends [of "re_sub_spaces_from False s"] show ?thesis
      unfolding s using py_isspace_space by auto
  qed
qed

text \<open>
  Claim C6. Text normalisation returns the lower-cased text with every character
  outside \<open>[a-zA-Z0-9 ]\<close> replaced by a space, whitespace runs collapsed to one space
  and the ends trimmed: it equals the specification's pipeline, and its result consists
  of \<open>a-z\<close>, \<open>0-9\<close> and single spaces, with no space at either end. The null text and
  the empty text give the empty string. The function is total: it returns a string on
  every input.
\<close>

theorem preprocess_text_refines_spec:
  "preprocess_text text = spec_normalize text
   \<and> preprocess_text None = []
   \<and> preprocess_text (Some []) = []
   \<and> (\<forall>c \<in> set (preprocess_text text). lower_alnum c \<or> c = CHR '' '')
   \<and> successively (\<lambda>a b. \<not> (a = CHR '' '' \<and> b = CHR '' '')) (preprocess_text text)
   \<and> (preprocess_text text = [] \<or>
       (hd (preprocess_text text) \<noteq> CHR '' '' \<and> last (preprocess_text text) \<noteq> CHR '' ''))"
proof -
  have eq: "preprocess_text text = spec_normalize text"
  proof (cases "text")
    case None
    then show ?thesis by (simp add: preprocess_text_def spec_normalize_def)
  next
    case (Some t)
    show ?thesis
    proof (cases "t = []")
      case True
      with Some show ?thesis
        by (simp add: preprocess_text_def spec_normalize_def py_lower_def
            re_sub_spaces_def py_strip_Nil)
    next
      case False
      with Some show ?thesis
        by (simp add: preprocess_text_def spec_normalize_def re_sub_spaces_def
            re_sub_spaces_from_class)
    qed
  qed
  have empty: "preprocess_text None = []" "preprocess_text (Some []) = []"
    by (simp_all add: preprocess_text_def)
  have chars: "\<forall>c \<in> set (preprocess_text text). lower_alnum c \<or> c = CHR '' ''"
    using preprocess_text_chars by blast
  from eq empty chars preprocess_text_single_spaces [of "text"] preprocess_text_trimmed [of "text"]
  show ?thesis by (simp only: simp_thms)
qed

section \<open>Properties of the analysis dictionary and of the similarity\<close>

lemma keyword_coverage_of_total:
  "keyword_coverage_of rk jk =
     Inr (if jk = [] then 0
          else real (py_len_intersection (py_set rk) (py_set jk)) / real (length jk) * 100)"
  by (simp add: keyword_coverage_of_def py_truediv_def Let_def)

lemma calculate_ats_score_try_returns:
  "\<exists>d. calculate_ats_score_try rt self resume_text job_description = Inr d"
  by (simp add: calculate_ats_score_try_def keyword_coverage_of_total Let_def)

lemma calculate_ats_score_ats_score:
  "map_of (calculate_ats_score rt self resume_text job_description) ''ats_score'' =
     Some (PyFloat (py_round
       (combined_similarity (calculate_hybrid_similarity self resume_text job_description) * 100) 2))"
  by (simp add: calculate_ats_score_def calculate_ats_score_try_def keyword_coverage_of_total Let_def)

lemma calculate_ats_score_keyword_fields:
  "map_of (calculate_ats_score rt self resume_text job_description) ''missing_keywords'' =
     Some (PyStrList (find_missing_keywords rt self resume_text job_description))"
  "map_of (calculate_ats_score rt self resume_text job_description) ''job_keywords'' =
     Some (PyStrList (take 15 (extract_keywords rt self job_description 20)))"
  "map_of (calculate_ats_score rt self resume_text job_description) ''resume_keywords'' =
     Some (PyStrList (take 15 (extract_keywords rt self resume_text 20)))"
  "map_of (calculate_ats_score rt self resume_text job_description) ''resume_text'' = None"
  "map_of (calculate_ats_score rt self resume_text job_description) ''resume_word_count'' = None"
  by (simp_all add: calculate_ats_score_def calculate_ats_score_try_def keyword_coverage_of_total
      Let_def py_slice_to_def)

text \<open>
  Claim C1. The aggregator returns \<open>0.7 * semantic + 0.3 * lexical\<close> with the hybrid
  method label (the code's \<open>hybrid_huggingface_tfidf\<close>) when the embedding engine is in
  use and loaded, and exactly the lexical score with the lexical-only label (the code's
  \<open>tfidf_only\<close>) otherwise; the \<open>ats_score\<close> of the analysis is the combined score times
  100, rounded to two decimals.
\<close>

theorem hybrid_score_policy:
  "(let r = calculate_hybrid_similarity self resume_text job_description in
      tfidf_similarity r = calculate_tfidf_similarity self resume_text job_description
      \<and> (if use_huggingface self \<and> hf_model self \<noteq> None
         then huggingface_similarity r =
                calculate_huggingface_similarity self resume_text job_description
              \<and> combined_similarity r =
                  (7 / 10) * huggingface_similarity r + (3 / 10) * tfidf_similarity r
              \<and> method_label r = ''hybrid_huggingface_tfidf''
         else combined_similarity r = tfidf_similarity r
              \<and> method_label r = ''tfidf_only'')
      \<and> map_of (calculate_ats_score rt self resume_text job_description) ''ats_score'' =
          Some (PyFloat (py_round (combined_similarity r * 100) 2))
      \<and> map_of (calculate_ats_score rt self resume_text job_description) ''model_method'' =
          Some (PyStr (method_label r)))"
  by (simp add: calculate_ats_score_def calculate_ats_score_try_def keyword_coverage_of_total
      calculate_hybrid_similarity_def Let_def)

lemma dot_commute: "dot x y = dot y x"
proof -
  have "map2 (*) x y = map2 (*) y x"
  proof (induction x arbitrary: y)
    case Nil
    show ?case by simp
  next
    case (Cons a x)
    show ?case by (cases y) (simp_all add: Cons.IH mult.commute)
  qed
  then show ?thesis by (simp add: dot_def)
qed

lemma cosine_similarity_commute: "cosine_similarity x y = cosine_similarity y x"
  by (simp add: cosine_similarity_def dot_commute)

lemma encoded_similarity_swap:
  "(case encoded_similarity enc a b of Inl e \<Rightarrow> (0::real) | Inr s \<Rightarrow> s) =
   (case encoded_similarity enc b a of Inl e \<Rightarrow> 0 | Inr s \<Rightarrow> s)"
proof (cases "enc a")
  case (Inl e)
  then show ?thesis by (cases "enc b") (simp_all add: encoded_similarity_def)
next
  case a: (Inr x)
  show ?thesis
  proof (cases "enc b")
    case (Inl e)
    with a show ?thesis by (simp add: encoded_similarity_def)
  next
    case (Inr y)
    with a show ?thesis
      using cosine_similarity_commute [of x y] by (simp add: encoded_similarity_def)
  qed
qed

text \<open>
  Claim C9. The lexical (TF-IDF) similarity is symmetric in its two texts. Over the real
  numbers the two values are equal; an exception raised while vectorising either text
  gives 0 in both orders.
\<close>

theorem tfidf_similarity_symmetric:
  "calculate_tfidf_similarity self a b = calculate_tfidf_similarity self b a"
  using encoded_similarity_swap [of "vectorizer self" "preprocess_text a" "preprocess_text b"]
  by (auto simp add: calculate_tfidf_similarity_def Let_def)

section \<open>Properties of keyword extraction: counting\<close>

lemma map_of_dict_set: "map_of (dict_set d k v) = (map_of d)(k \<mapsto> v)"
  by (induction d) (auto simp add: fun_eq_iff)

lemma keys_dict_set:
  "map fst (dict_set d k v) = (if k \<in> fst ` set d then map fst d else map fst d @ [k])"
  by (induction d) auto

lemma count_keywords_append:
  "count_keywords (xs @ ys) d = count_keywords ys (count_keywords xs d)"
  by (induction xs arbitrary: d) simp_all

lemma count_keywords_snoc:
  "count_keywords (xs @ [k]) d =
     dict_set (count_keywords xs d) k (dict_get (count_keywords xs d) k 0 + 1)"
  by (simp add: count_keywords_append)

lemma first_index_less: "w \<in> set ws \<Longrightarrow> first_index ws w < length ws"
  unfolding first_index_def by (induction ws) auto

lemma first_index_snoc_old: "w \<in> set ws \<Longrightarrow> first_index (ws @ [k]) w = first_index ws w"
  unfolding first_index_def by (induction ws) auto

lemma first_index_snoc_new: "k \<notin> set ws \<Longrightarrow> first_index (ws @ [k]) k = length ws"
  unfolding first_index_def by (induction ws) auto

lemma nth_first_index: "w \<in> set ws \<Longrightarrow> ws ! first_index ws w = w"
  unfolding first_index_def by (induction ws) auto

lemma first_index_inj: "inj_on (first_index ws) (set ws)"
  by (rule inj_onI) (metis nth_first_index)

lemma count_keywords_invariant:
  "distinct (map fst (count_keywords ws []))
   \<and> set (map fst (count_keywords ws [])) = set ws
   \<and> (\<forall>w. map_of (count_keywords ws []) w =
           (if w \<in> set ws then Some (count_list ws w) else None))
   \<and> sorted_wrt (\<lambda>a b. first_index ws (fst a) < first_index ws (fst b))
        (count_keywords ws [])"
proof (induction ws rule: rev_induct)
  case Nil
  show ?case by simp
next
  case (snoc k ws)
  define D where "D = count_keywords ws []"
  have dist: "distinct (map fst D)" and keys: "set (map fst D) = set ws"
    and vals: "\<And>w. map_of D w = (if w \<in> set ws then Some (count_list ws w) else None)"
    and ord: "sorted_wrt (\<lambda>a b. first_index ws (fst a) < first_index ws (fst b)) D"
    using snoc.IH by (simp_all add: D_def)
  define D' where "D' = dict_set D k (dict_get D k 0 + 1)"
  have step: "count_keywords (ws @ [k]) [] = D'"
    by (simp add: count_keywords_snoc D_def D'_def)
  have keys_img: "fst ` set D = set ws" using keys by simp
  have kD': "map fst D' = (if k \<in> set ws then map fst D else map fst D @ [k])"
    by (simp add: D'_def keys_dict_set keys_img)
  have d1: "distinct (map fst D')" using dist keys by (simp add: kD')
  have d2: "set (map fst D') = set (ws @ [k])" using keys by (auto simp add: kD')
  have get: "dict_get D k 0 = count_list ws k"
    by (simp add: dict_get_def vals)
  have d3: "\<And>w. map_of D' w = (if w \<in> set (ws @ [k]) then Some (count_list (ws @ [k]) w) else None)"
    by (simp add: D'_def map_of_dict_set vals get)
  have ord_old: "sorted_wrt (\<lambda>a b. first_index (ws @ [k]) (fst a) < first_index (ws @ [k]) (fst b)) D"
  proof (rule sorted_wrt_mono_rel [OF _ ord])
    fix a b assume "a \<in> set D" "b \<in> set D"
      and "first_index ws (fst a) < first_index ws (fst b)"
    moreover from \<open>a \<in> set D\<close> \<open>b \<in> set D\<close> have "fst a \<in> set ws" "fst b \<in> set ws"
      using keys_img by auto
    ultimately show "first_index (ws @ [k]) (fst a) < first_index (ws @ [k]) (fst b)"
      by (simp add: first_index_snoc_old)
  qed
  have d4: "sorted_wrt (\<lambda>a b. first_index (ws @ [k]) (fst a) < first_index (ws @ [k]) (fst b)) D'"
  proof (cases "k \<in> set ws")
    case True
    then have "k \<in> fst ` set D" using keys_img by simp
    then have same: "map fst D' = map fst D" by (simp add: D'_def keys_dict_set)
    have "sorted_wrt (\<lambda>x y. first_index (ws @ [k]) x < first_index (ws @ [k]) y) (map fst D)"
      using ord_old by (simp add: sorted_wrt_map)
    then have "sorted_wrt (\<lambda>x y. first_index (ws @ [k]) x < first_index (ws @ [k]) y) (map fst D')"
      by (simp add: same)
    then show ?thesis by (simp add: sorted_wrt_map)
  next
    case False
    then have new: "map fst D' = map fst D @ [k]" by (simp add: kD')
    have "sorted_wrt (\<lambda>x y. first_index (ws @ [k]) x < first_index (ws @ [k]) y) (map fst D @ [k])"
    proof -
      have "\<forall>x \<in> set (map fst D). first_index (ws @ [k]) x < first_index (ws @ [k]) k"
        using False keys by (simp add: first_index_snoc_new first_index_snoc_old first_index_less)
      moreover have "sorted_wrt (\<lambda>x y. first_index (ws @ [k]) x < first_index (ws @ [k]) y) (map fst D)"
        using ord_old by (simp add: sorted_wrt_map)
      ultimately show ?thesis by (simp add: sorted_wrt_append)
    qed
    then have "sorted_wrt (\<lambda>x y. first_index (ws @ [k]) x < first_index (ws @ [k]) y) (map fst D')"
      by (simp add: new)
    then show ?thesis by (simp add: sorted_wrt_map)
  qed
  show ?case unfolding step using d1 d2 d3 d4 by blast
qed


section \<open>Properties of keyword extraction: sorting\<close>

lemma py_sorted_reverse_mset: "mset (py_sorted_reverse f xs) = mset xs"
  by (simp add: py_sorted_reverse_def)

lemma py_sorted_reverse_descending:
  "sorted_wrt (\<lambda>a b. f b \<le> f a) (py_sorted_reverse f xs)"
proof -
  have "sorted (map f (sort_key f (rev xs)))" by (rule sorted_sort_key)
  then have "sorted_wrt (\<lambda>a b. f a \<le> f b) (sort_key f (rev xs))"
    by (simp add: sorted_wrt_map)
  then show ?thesis by (simp add: py_sorted_reverse_def sorted_wrt_rev)
qed

lemma py_sorted_reverse_stable:
  "filter (\<lambda>y. f y = c) (py_sorted_reverse f xs) = filter (\<lambda>y. f y = c) xs"
  by (simp add: py_sorted_reverse_def rev_filter [symmetric] sort_key_stable)

lemma ranked_from_stable:
  fixes f :: "'a \<Rightarrow> 'k::linorder"
  shows "sorted_wrt (\<lambda>a b. f b \<le> f a) T \<Longrightarrow>
   (\<And>c. sorted_wrt P (filter (\<lambda>y. f y = c) T)) \<Longrightarrow>
   sorted_wrt (\<lambda>a b. f b < f a \<or> (f a = f b \<and> P a b)) T"
proof (induction T)
  case Nil
  show ?case by simp
next
  case (Cons x T)
  have desc: "\<forall>y \<in> set T. f y \<le> f x" and descT: "sorted_wrt (\<lambda>a b. f b \<le> f a) T"
    using Cons.prems(1) by simp_all
  have groups: "\<And>c. sorted_wrt P (filter (\<lambda>y. f y = c) T)"
  proof -
    fix c
    from Cons.prems(2) [of c] show "sorted_wrt P (filter (\<lambda>y. f y = c) T)"
      by (cases "f x = c") simp_all
  qed
  have head: "\<forall>y \<in> set T. f y < f x \<or> (f x = f y \<and> P x y)"
  proof
    fix y assume y: "y \<in> set T"
    show "f y < f x \<or> (f x = f y \<and> P x y)"
    proof (cases "f y = f x")
      case True
      from Cons.prems(2) [of "f x"] have "\<forall>z \<in> set (filter (\<lambda>y. f y = f x) T). P x z"
        by simp
      with y True show ?thesis by simp
    next
      case False
      with desc y show ?thesis by (auto simp add: order_less_le)
    qed
  qed
  from head Cons.IH [OF descT groups] show ?case by simp
qed

section \<open>Properties of keyword extraction: ranking\<close>

lemma count_keywords_items:
  assumes "a \<in> set (count_keywords ws [])"
  shows "fst a \<in> set ws \<and> snd a = count_list ws (fst a)"
proof -
  have dist: "distinct (map fst (count_keywords ws []))"
    and vals: "\<And>w. map_of (count_keywords ws []) w =
           (if w \<in> set ws then Some (count_list ws w) else None)"
    using count_keywords_invariant [of ws] by simp_all
  from assms have "(fst a, snd a) \<in> set (count_keywords ws [])" by simp
  with dist have "map_of (count_keywords ws []) (fst a) = Some (snd a)"
    by (rule map_of_is_SomeI)
  with vals [of "fst a"] show ?thesis by (simp split: if_splits)
qed

lemma ranked_code_sorted:
  "sorted_wrt (<) (map (\<lambda>w. (- int (count_list ws w), first_index ws w))
     (map fst (py_sorted_reverse snd (count_keywords ws []))))"
proof -
  define D where "D = count_keywords ws []"
  define T where "T = py_sorted_reverse snd D"
  define P where "P = (\<lambda>(a :: string \<times> nat) (b :: string \<times> nat).
      first_index ws (fst a) < first_index ws (fst b))"
  have setT: "set T = set D"
    using py_sorted_reverse_mset [of snd D] by (metis T_def mset_eq_setD)
  have ordD: "sorted_wrt P D"
    using count_keywords_invariant [of ws] by (simp add: D_def P_def)
  have groups: "\<And>c. sorted_wrt P (filter (\<lambda>y. snd y = c) T)"
    by (simp add: T_def py_sorted_reverse_stable sorted_wrt_filter ordD)
  have "sorted_wrt (\<lambda>a b. snd b < snd a \<or> (snd a = snd b \<and> P a b)) T"
    using py_sorted_reverse_descending [of snd D] groups
    by (simp add: T_def ranked_from_stable)
  then have "sorted_wrt (\<lambda>a b. (- int (count_list ws (fst a)), first_index ws (fst a))
                            < (- int (count_list ws (fst b)), first_index ws (fst b))) T"
  proof (rule sorted_wrt_mono_rel [rotated])
    fix a b assume a: "a \<in> set T" and b: "b \<in> set T"
      and r: "snd b < snd a \<or> (snd a = snd b \<and> P a b)"
    have "snd a = count_list ws (fst a)" "snd b = count_list ws (fst b)"
      using a b setT count_keywords_items [of _ ws] by (simp_all add: D_def)
    with r show "(- int (count_list ws (fst a)), first_index ws (fst a))
                 < (- int (count_list ws (fst b)), first_index ws (fst b))"
      by (auto simp add: less_prod_def P_def)
  qed
  then show ?thesis by (simp add: sorted_wrt_map T_def D_def)
qed


lemma rank_key_inj:
  "inj_on (\<lambda>w. (- int (count_list ws w), first_index ws w)) (set ws)"
  by (rule inj_onI) (metis nth_first_index prod.inject)

lemma ranked_code_set:
  "set (map fst (py_sorted_reverse snd (count_keywords ws []))) = set ws"
proof -
  have "set (py_sorted_reverse snd (count_keywords ws [])) = set (count_keywords ws [])"
    using py_sorted_reverse_mset [of snd "count_keywords ws []"] by (metis mset_eq_setD)
  then have "set (map fst (py_sorted_reverse snd (count_keywords ws []))) =
             set (map fst (count_keywords ws []))"
    by simp
  then show ?thesis using count_keywords_invariant [of ws] by simp
qed

lemma spec_ranked_set: "set (spec_ranked ws) = set ws"
  by (simp add: spec_ranked_def)

lemma spec_ranked_sorted:
  "sorted_wrt (<) (map (\<lambda>w. (- int (count_list ws w), first_index ws w)) (spec_ranked ws))"
proof -
  let ?key = "\<lambda>w. (- int (count_list ws w), first_index ws w)"
  have "sorted (map ?key (spec_ranked ws))"
    unfolding spec_ranked_def by (rule sorted_sort_key)
  moreover have "distinct (map ?key (spec_ranked ws))"
  proof -
    have "distinct (spec_ranked ws)" by (simp add: spec_ranked_def)
    moreover have "inj_on ?key (set (spec_ranked ws))"
      using rank_key_inj [of ws] by (simp add: spec_ranked_set)
    ultimately show ?thesis by (simp add: distinct_map)
  qed
  ultimately show ?thesis by (simp add: strict_sorted_iff)
qed

lemma ranked_code_eq_spec:
  "map fst (py_sorted_reverse snd (count_keywords ws [])) = spec_ranked ws"
proof -
  let ?key = "\<lambda>w. (- int (count_list ws w), first_index ws w)"
  let ?C = "map fst (py_sorted_reverse snd (count_keywords ws []))"
  have c: "sorted_wrt (<) (map ?key ?C)" by (rule ranked_code_sorted)
  have s: "sorted_wrt (<) (map ?key (spec_ranked ws))" by (rule spec_ranked_sorted)
  have "set (map ?key ?C) = set (map ?key (spec_ranked ws))"
    using ranked_code_set [of ws] spec_ranked_set [of ws] by (simp only: set_map)
  with c s have "map ?key ?C = map ?key (spec_ranked ws)"
    by (simp add: strict_sorted_iff sorted_distinct_set_unique)
  moreover have "inj_on ?key (set ?C \<union> set (spec_ranked ws))"
    using rank_key_inj [of ws] ranked_code_set [of ws] spec_ranked_set [of ws]
    by (simp only: Un_absorb)
  ultimately show ?thesis by (simp only: inj_on_map_eq_map)
qed

lemma keyword_filter_eq_spec:
  "filter (\<lambda>token. token \<notin> S \<and> 2 < length token \<and> py_isalpha token) tokens =
   filter (\<lambda>token. \<not> (token \<in> S \<or> length token < 3 \<or> \<not> py_isalpha token)) tokens"
  by (rule filter_cong) auto

lemma extract_keywords_full:
  "extract_keywords rt self text top_k =
     py_slice_to (spec_ranked (spec_candidates rt self text)) top_k"
proof (cases "text")
  case None
  then show ?thesis
    by (simp add: extract_keywords_def spec_candidates_def spec_ranked_def py_slice_to_def)
next
  case (Some t)
  show ?thesis
  proof (cases "t = []")
    case True
    with Some show ?thesis
      by (simp add: extract_keywords_def spec_candidates_def spec_ranked_def py_slice_to_def)
  next
    case False
    have slice_map: "\<And>(xs :: (string \<times> nat) list). map fst (py_slice_to xs top_k) = py_slice_to (map fst xs) top_k"
      by (simp add: py_slice_to_def take_map)
    from False Some show ?thesis
      by (simp add: extract_keywords_def spec_candidates_def Let_def slice_map
          ranked_code_eq_spec keyword_filter_eq_spec)
  qed
qed

text \<open>
  Claim C5. Keyword extraction tokenizes the lower-cased text, discards the tokens that
  are stopwords, shorter than three characters or not purely alphabetic, counts
  frequencies, ranks the distinct tokens by frequency descending with the first occurrence
  as tie-break, and returns the slice \<open>[:top_k]\<close> of the ranking: its first \<open>top_k\<close> tokens
  for every \<open>top_k\<close> from 0 on. The null text and the empty text give the empty list.
\<close>

theorem extract_keywords_ranked:
  "extract_keywords rt self text top_k =
     py_slice_to (spec_ranked (spec_candidates rt self text)) top_k
   \<and> (0 \<le> top_k \<longrightarrow>
        extract_keywords rt self text top_k =
          take (nat top_k) (spec_ranked (spec_candidates rt self text)))
   \<and> extract_keywords rt self None top_k = []
   \<and> extract_keywords rt self (Some []) top_k = []"
proof -
  have full: "extract_keywords rt self text top_k =
      py_slice_to (spec_ranked (spec_candidates rt self text)) top_k"
    by (rule extract_keywords_full)
  have first: "0 \<le> top_k \<longrightarrow>
      extract_keywords rt self text top_k =
        take (nat top_k) (spec_ranked (spec_candidates rt self text))"
    by (simp add: full py_slice_to_def)
  have none: "extract_keywords rt self None top_k = []"
    by (simp add: extract_keywords_def)
  have empty: "extract_keywords rt self (Some []) top_k = []"
    by (simp add: extract_keywords_def)
  from full first none empty show ?thesis by (simp only: simp_thms)
qed

section \<open>Properties of the gap analysis\<close>

lemma find_missing_keywords_unfold:
  "find_missing_keywords rt self resume_text job_description =
     take 10 (set_iter rt (filter (\<lambda>x. x \<notin> set (extract_keywords rt self resume_text 20))
                            (remdups (extract_keywords rt self job_description 20))))"
  by (simp add: find_missing_keywords_def py_set_def py_set_difference_def py_slice_to_def Let_def)

lemma admissible_set_iterD:
  "admissible_set_iter rt \<Longrightarrow> distinct xs \<Longrightarrow>
     distinct (set_iter rt xs) \<and> set (set_iter rt xs) = set xs"
  by (simp add: admissible_set_iter_def)

text \<open>
  Claim C3, as amended. Under any admissible iteration order of Python sets, the
  missing-keywords operation returns distinct tokens of the set difference of the job
  keywords and the resume keywords, \<open>min 10 n\<close> of them when the difference has \<open>n\<close>
  elements, hence the whole difference when it has at most ten. Their order is the
  iteration order of the set; frequency plays no part in it.
\<close>

theorem find_missing_keywords_unordered_difference:
  assumes "admissible_set_iter rt"
  shows "(let ms = find_missing_keywords rt self resume_text job_description;
              jk = extract_keywords rt self job_description 20;
              rk = extract_keywords rt self resume_text 20
          in distinct ms
             \<and> set ms \<subseteq> set jk - set rk
             \<and> length ms = min 10 (card (set jk - set rk))
             \<and> (card (set jk - set rk) \<le> 10 \<longrightarrow> set ms = set jk - set rk))"
proof -
  define jk where "jk = extract_keywords rt self job_description 20"
  define rk where "rk = extract_keywords rt self resume_text 20"
  define M where "M = filter (\<lambda>x. x \<notin> set rk) (remdups jk)"
  define L where "L = set_iter rt M"
  have dM: "distinct M" and sM: "set M = set jk - set rk"
    by (auto simp add: M_def)
  have dL: "distinct L" and sL: "set L = set jk - set rk"
    using admissible_set_iterD [OF assms dM] sM by (simp_all add: L_def)
  have ms: "find_missing_keywords rt self resume_text job_description = take 10 L"
    by (simp add: find_missing_keywords_unfold L_def M_def jk_def rk_def)
  have len: "length L = card (set jk - set rk)"
    using dL sL by (metis distinct_card)
  have a: "distinct (take 10 L)" using dL by simp
  have b: "set (take 10 L) \<subseteq> set jk - set rk" using sL by (metis set_take_subset)
  have c: "length (take 10 L) = min 10 (card (set jk - set rk))" using len by simp
  have d: "card (set jk - set rk) \<le> 10 \<longrightarrow> set (take 10 L) = set jk - set rk"
    using len sL by simp
  show ?thesis
    unfolding Let_def ms jk_def [symmetric] rk_def [symmetric] using a b c d by blast
qed

lemma admissible_reversing_runtime: "admissible_set_iter reversing_runtime"
  by (simp add: admissible_set_iter_def reversing_runtime_def)

lemma admissible_example_runtime: "admissible_set_iter example_runtime"
  by (simp add: admissible_set_iter_def example_runtime_def)

text \<open>
  Counterexample to claim C3 as stated. With a runtime that iterates the set in the
  opposite order, the job description \<open>python python django\<close> yields \<open>django\<close> before
  \<open>python\<close>, although \<open>python\<close> is the more frequent keyword.
\<close>

theorem find_missing_keywords_not_by_frequency:
  "find_missing_keywords reversing_runtime example_scorer
      (Some ''java developer'') (Some ''python python django'') = [''django'', ''python'']
   \<and> job_frequency reversing_runtime example_scorer (Some ''python python django'') ''django''
       < job_frequency reversing_runtime example_scorer (Some ''python python django'') ''python''
   \<and> find_missing_keywords reversing_runtime example_scorer
        (Some ''java developer'') (Some ''python python django'')
       \<noteq> spec_missing reversing_runtime example_scorer
           (Some ''java developer'') (Some ''python python django'')"
  by code_simp

text \<open>Witness for the amended claim C3 on the same input.\<close>

theorem find_missing_keywords_unordered_difference_witness:
  "admissible_set_iter reversing_runtime
   \<and> set (find_missing_keywords reversing_runtime example_scorer
        (Some ''java developer'') (Some ''python python django'')) = {''python'', ''django''}"
proof -
  have jk: "extract_keywords reversing_runtime example_scorer (Some ''python python django'') 20
              = [''python'', ''django'']"
    by code_simp
  have rk: "extract_keywords reversing_runtime example_scorer (Some ''java developer'') 20
              = [''java'', ''developer'']"
    by code_simp
  have diff: "set [''python'', ''django''] - set [''java'', ''developer'']
                = {''python'', ''django''}"
    by auto
  have small: "card (set [''python'', ''django''] - set [''java'', ''developer'']) \<le> 10"
    by (simp add: diff)
  show ?thesis
    using find_missing_keywords_unordered_difference [OF admissible_reversing_runtime,
        of example_scorer "Some ''java developer''" "Some ''python python django''"]
      admissible_reversing_runtime small diff
    by (simp only: Let_def jk rk)
qed


lemma field_str_list_keywords:
  "field_str_list (calculate_ats_score rt self resume_text job_description) ''missing_keywords''
     = find_missing_keywords rt self resume_text job_description"
  "field_str_list (calculate_ats_score rt self resume_text job_description) ''job_keywords''
     = take 15 (extract_keywords rt self job_description 20)"
  "field_str_list (calculate_ats_score rt self resume_text job_description) ''resume_keywords''
     = take 15 (extract_keywords rt self resume_text 20)"
  by (simp_all add: field_str_list_def calculate_ats_score_keyword_fields)

text \<open>
  Claim C4, as amended. Every token of the \<open>missing_keywords\<close> field is one of the (at
  most twenty) keywords extracted from the job description, of which the
  \<open>job_keywords\<close> field reports the first fifteen; no token of \<open>missing_keywords\<close> is a
  keyword extracted from the resume, and so none appears in the \<open>resume_keywords\<close> field.
\<close>

theorem missing_keywords_within_extracted:
  assumes "admissible_set_iter rt"
  shows "(let d = calculate_ats_score rt self resume_text job_description;
              ms = field_str_list d ''missing_keywords''
          in set ms \<subseteq> set (extract_keywords rt self job_description 20)
             \<and> set ms \<inter> set (extract_keywords rt self resume_text 20) = {}
             \<and> set ms \<inter> set (field_str_list d ''resume_keywords'') = {}
             \<and> set (field_str_list d ''job_keywords'')
                 \<subseteq> set (extract_keywords rt self job_description 20))"
proof -
  define ms where "ms = find_missing_keywords rt self resume_text job_description"
  define jk where "jk = extract_keywords rt self job_description 20"
  define rk where "rk = extract_keywords rt self resume_text 20"
  define M where "M = filter (\<lambda>x. x \<notin> set rk) (remdups jk)"
  have dM: "distinct M" and sM: "set M = set jk - set rk"
    by (auto simp add: M_def)
  have "set (set_iter rt M) = set jk - set rk"
    using admissible_set_iterD [OF assms dM] sM by simp
  moreover have "ms = take 10 (set_iter rt M)"
    by (simp add: ms_def find_missing_keywords_unfold M_def jk_def rk_def)
  ultimately have sub: "set ms \<subseteq> set jk - set rk"
    by (metis set_take_subset)
  have a: "set ms \<subseteq> set jk" and b: "set ms \<inter> set rk = {}"
    using sub by auto
  have c: "set ms \<inter> set (take 15 rk) = {}"
    using b set_take_subset [of 15 rk] by auto
  have d: "set (take 15 jk) \<subseteq> set jk" by (rule set_take_subset)
  show ?thesis
    unfolding Let_def field_str_list_keywords
      ms_def [symmetric] jk_def [symmetric] rk_def [symmetric]
    using a b c d by blast
qed

lemma sixteen_job_keywords:
  "extract_keywords example_runtime lexical_scorer (Some sixteen_keywords_job) 20 =
     [''python'', ''django'', ''flask'', ''docker'', ''kubernetes'', ''terraform'',
      ''jenkins'', ''linux'', ''react'', ''angular'', ''node'', ''mongodb'', ''redis'',
      ''kafka'', ''spark'', ''airflow'']"
  by code_simp

lemma sixteen_missing:
  "find_missing_keywords example_runtime lexical_scorer
     (Some fifteen_keywords_resume) (Some sixteen_keywords_job) = [''airflow'']"
  by code_simp

text \<open>
  Counterexample to claim C4 as stated. The job description has sixteen keywords and the
  resume the first fifteen of them: the sixteenth is the one missing keyword, and the
  \<open>job_keywords\<close> field, cut to fifteen entries, does not contain it.
\<close>

theorem missing_keyword_outside_job_keywords_field:
  "(let d = calculate_ats_score example_runtime lexical_scorer
              (Some fifteen_keywords_resume) (Some sixteen_keywords_job)
    in field_str_list d ''missing_keywords'' = [''airflow'']
       \<and> ''airflow'' \<notin> set (field_str_list d ''job_keywords'')
       \<and> \<not> set (field_str_list d ''missing_keywords'')
             \<subseteq> set (field_str_list d ''job_keywords''))"
  unfolding Let_def field_str_list_keywords sixteen_missing sixteen_job_keywords
  by simp

text \<open>Witness for the amended claim C4 on the same input.\<close>

theorem missing_keywords_within_extracted_witness:
  "admissible_set_iter example_runtime
   \<and> set (field_str_list (calculate_ats_score example_runtime lexical_scorer
             (Some fifteen_keywords_resume) (Some sixteen_keywords_job)) ''missing_keywords'')
       \<subseteq> set (extract_keywords example_runtime lexical_scorer (Some sixteen_keywords_job) 20)"
  using missing_keywords_within_extracted [OF admissible_example_runtime,
      of lexical_scorer "Some fifteen_keywords_resume" "Some sixteen_keywords_job"]
    admissible_example_runtime
  by (simp only: Let_def)

section \<open>Properties of the keyword coverage\<close>

lemma py_len_intersection_card:
  "py_len_intersection (py_set rk) (py_set jk) = card (set rk \<inter> set jk)"
proof -
  have "distinct (filter (\<lambda>x. x \<in> set (remdups jk)) (remdups rk))" by simp
  moreover have "set (filter (\<lambda>x. x \<in> set (remdups jk)) (remdups rk)) = set rk \<inter> set jk"
    by auto
  ultimately show ?thesis
    unfolding py_len_intersection_def py_set_def by (metis distinct_card)
qed

lemma spec_ranked_distinct: "distinct (spec_ranked ws)"
  by (simp add: spec_ranked_def)

lemma extract_keywords_distinct: "distinct (extract_keywords rt self text top_k)"
  by (simp add: extract_keywords_full py_slice_to_def spec_ranked_distinct)

text \<open>
  Claim C8. The keyword overlap percentage is 100 times the overlap count divided by the
  number of job keywords, and 0 when there are no job keywords; the guarded division
  returns a number and never \<open>ZeroDivisionError\<close>. The analysis reports the percentage
  rounded to two decimals under the key \<open>keyword_coverage\<close>.
\<close>

theorem keyword_coverage_guarded:
  "(let rk = extract_keywords rt self resume_text 20;
        jk = extract_keywords rt self job_description 20;
        pct = (if set jk = {} then 0
               else 100 * real (card (set rk \<inter> set jk)) / real (card (set jk)))
    in keyword_coverage_of rk jk = Inr pct
       \<and> map_of (calculate_ats_score rt self resume_text job_description) ''keyword_coverage''
           = Some (PyFloat (py_round pct 2)))"
proof -
  define rk where "rk = extract_keywords rt self resume_text 20"
  define jk where "jk = extract_keywords rt self job_description 20"
  have len: "length jk = card (set jk)"
    using extract_keywords_distinct [of rt self job_description 20]
    by (simp add: jk_def distinct_card)
  have cov: "keyword_coverage_of rk jk =
      Inr (if set jk = {} then 0
           else 100 * real (card (set rk \<inter> set jk)) / real (card (set jk)))"
    by (simp add: keyword_coverage_of_total py_len_intersection_card len [symmetric])
  have fld: "map_of (calculate_ats_score rt self resume_text job_description) ''keyword_coverage''
      = Some (PyFloat (py_round (case keyword_coverage_of rk jk of Inr p \<Rightarrow> p | Inl e \<Rightarrow> 0) 2))"
    by (simp add: calculate_ats_score_def calculate_ats_score_try_def keyword_coverage_of_total
        Let_def rk_def jk_def)
  show ?thesis
    unfolding Let_def rk_def [symmetric] jk_def [symmetric] using cov fld by simp
qed

section \<open>Properties of the recommender\<close>

lemma get_defaults_scorer:
  "get_str (calculate_ats_score rt self resume_text job_description) ''resume_text'' dflt = Inr dflt"
  "get_num (calculate_ats_score rt self resume_text job_description) ''resume_word_count'' n = Inr n"
  by (simp_all add: get_str_def get_num_def calculate_ats_score_keyword_fields)

lemma get_fields_scorer:
  "get_num (calculate_ats_score rt self resume_text job_description) ''ats_score'' n =
     Inr (py_round
       (combined_similarity (calculate_hybrid_similarity self resume_text job_description) * 100) 2)"
  "get_str_list (calculate_ats_score rt self resume_text job_description) ''missing_keywords'' l =
     Inr (find_missing_keywords rt self resume_text job_description)"
  "get_str_list (calculate_ats_score rt self resume_text job_description) ''resume_keywords'' l =
     Inr (take 15 (extract_keywords rt self resume_text 20))"
  by (simp_all add: get_str_list_def get_num_def calculate_ats_score_keyword_fields
      calculate_ats_score_ats_score)

lemma analyze_sections_scorer:
  "analyze_sections (calculate_ats_score rt self resume_text job_description) =
     Inr all_sections_absent"
  by (simp add: analyze_sections_def get_defaults_scorer py_bind_def py_lower_def
      check_section_def all_sections_absent_def)

lemma analyze_format_scorer:
  "\<exists>fmt. analyze_format (calculate_ats_score rt self resume_text job_description) = Inr fmt
     \<and> format_warnings fmt = [''Resume is too short - consider adding more detail'']"
  by (simp add: analyze_format_def get_defaults_scorer py_bind_def)

lemma generate_recommendations_scorer:
  assumes "generate_recommendations (calculate_ats_score rt self resume_text job_description)
             = Inr r"
  shows "sections r = all_sections_absent
         \<and> format_warnings (format r) = [''Resume is too short - consider adding more detail'']"
proof -
  obtain kws where "analyze_keywords (find_missing_keywords rt self resume_text job_description)
      (take 15 (extract_keywords rt self resume_text 20)) = Inr kws"
    using assms
    by (cases "analyze_keywords (find_missing_keywords rt self resume_text job_description)
      (take 15 (extract_keywords rt self resume_text 20))")
      (simp_all add: generate_recommendations_def get_fields_scorer py_bind_def
        analyze_sections_scorer)
  with assms show ?thesis
    by (auto simp add: generate_recommendations_def get_fields_scorer py_bind_def
        analyze_sections_scorer analyze_format_def analyze_content_def
        analyze_ats_optimization_def get_defaults_scorer Let_def)
qed

lemma generate_recommendations_fails_with_keywords:
  assumes "analyze_keywords (find_missing_keywords rt self resume_text job_description)
      (take 15 (extract_keywords rt self resume_text 20)) = Inl e"
  shows "generate_recommendations (calculate_ats_score rt self resume_text job_description) = Inl e"
  using assms
  by (simp add: generate_recommendations_def get_fields_scorer py_bind_def
      analyze_sections_scorer)

text \<open>
  The outcome of the categorisation for any list of keywords: it raises \<open>KeyError\<close>
  exactly when some keyword falls into \<open>technical_skills\<close>; otherwise it returns the
  five result lists, and every keyword is in exactly one of them.
\<close>

lemma first_matching_category_in_keys:
  "first_matching_category cats x = Some c \<Longrightarrow> c \<in> fst ` set cats"
  by (induction cats) (auto split: if_splits)

lemma first_matching_category_cases:
  "first_matching_category keyword_categories x = None
   \<or> first_matching_category keyword_categories x = Some ''action_verbs''
   \<or> first_matching_category keyword_categories x = Some ''technical_skills''
   \<or> first_matching_category keyword_categories x = Some ''soft_skills''
   \<or> first_matching_category keyword_categories x = Some ''quantifiers''"
proof (cases "first_matching_category keyword_categories x")
  case None
  then show ?thesis by simp
next
  case (Some c)
  then have "c \<in> fst ` set keyword_categories" by (rule first_matching_category_in_keys)
  then have "c = ''action_verbs'' \<or> c = ''technical_skills'' \<or> c = ''soft_skills''
      \<or> c = ''quantifiers''"
    by (simp add: keyword_categories_def)
  with Some show ?thesis by auto
qed

lemma dict_append_present:
  assumes "distinct (map fst d)" and "k \<in> fst ` set d"
  shows "\<exists>d'. dict_append d k v = Inr d' \<and> map fst d' = map fst d
           \<and> mset (concat (map snd d')) = mset (concat (map snd d)) + {#v#}"
  using assms
proof (induction d)
  case Nil
  then show ?case by simp
next
  case (Cons p d)
  show ?case
  proof (cases "fst p = k")
    case True
    then show ?thesis by (cases p) (simp add: dict_append_def)
  next
    case False
    with Cons.prems have "k \<in> fst ` set d" and "distinct (map fst d)" by auto
    from Cons.IH [OF this(2) this(1)] obtain d' where
      "dict_append d k v = Inr d'" "map fst d' = map fst d"
      "mset (concat (map snd d')) = mset (concat (map snd d)) + {#v#}"
      by blast
    with False show ?thesis
      by (cases p) (auto simp add: dict_append_def split: option.splits)
  qed
qed

lemma dict_append_absent: "k \<notin> fst ` set d \<Longrightarrow> dict_append d k v = Inl (KeyError k)"
proof -
  assume "k \<notin> fst ` set d"
  then have "map_of d k = None" by (simp add: map_of_eq_None_iff)
  then show ?thesis by (simp add: dict_append_def)
qed

lemma categorize_loop_outcome:
  assumes "map fst d = result_categories"
  shows "(categorize_loop ks d = Inl (KeyError ''technical_skills'')
          \<and> (\<exists>k \<in> set ks. first_matching_category keyword_categories (py_lower k)
                = Some ''technical_skills''))
       \<or> ((\<exists>d'. categorize_loop ks d = Inr d' \<and> map fst d' = result_categories
               \<and> mset (concat (map snd d')) = mset (concat (map snd d)) + mset ks)
          \<and> (\<forall>k \<in> set ks. first_matching_category keyword_categories (py_lower k)
                \<noteq> Some ''technical_skills''))"
  using assms
proof (induction ks arbitrary: d)
  case Nil
  then show ?case by simp
next
  case (Cons k ks)
  have dist: "distinct (map fst d)" and keys: "fst ` set d = set result_categories"
    using Cons.prems by (simp_all add: result_categories_def flip: set_map)
  let ?step = "case first_matching_category keyword_categories (py_lower k) of
              Some category \<Rightarrow> dict_append d category k
            | None \<Rightarrow> dict_append d ''other'' k"
  have loop: "categorize_loop (k # ks) d = py_bind ?step (categorize_loop ks)"
    by (simp add: Let_def)
  show ?case
  proof (cases "first_matching_category keyword_categories (py_lower k) = Some ''technical_skills''")
    case True
    have "''technical_skills'' \<notin> fst ` set d"
      by (simp add: keys result_categories_def)
    then have "?step = Inl (KeyError ''technical_skills'')"
      by (simp add: True dict_append_absent)
    then have "categorize_loop (k # ks) d = Inl (KeyError ''technical_skills'')"
      by (simp add: loop py_bind_def)
    with True show ?thesis by simp
  next
    case False
    then obtain c where step: "?step = dict_append d c k" and c: "c \<in> fst ` set d"
      using first_matching_category_cases [of "py_lower k"]
      by (auto simp add: keys result_categories_def)
    from dict_append_present [OF dist c, of k] obtain d1 where
      d1: "dict_append d c k = Inr d1" "map fst d1 = map fst d"
      "mset (concat (map snd d1)) = mset (concat (map snd d)) + {#k#}"
      by blast
    have next_loop: "categorize_loop (k # ks) d = categorize_loop ks d1"
      by (simp only: loop step d1(1)) (simp add: py_bind_def)
    have "map fst d1 = result_categories" using d1(2) Cons.prems by simp
    from Cons.IH [OF this] False d1(3) show ?thesis
      by (auto simp add: next_loop simp del: categorize_loop.simps)
  qed
qed

lemma categorize_keywords_outcome:
  "(categorize_keywords ks = Inl (KeyError ''technical_skills'')
    \<and> (\<exists>k \<in> set ks. first_matching_category keyword_categories (py_lower k)
          = Some ''technical_skills''))
   \<or> ((\<exists>d'. categorize_keywords ks = Inr d' \<and> map fst d' = result_categories
          \<and> mset (concat (map snd d')) = mset ks)
      \<and> (\<forall>k \<in> set ks. first_matching_category keyword_categories (py_lower k)
            \<noteq> Some ''technical_skills''))"
  using categorize_loop_outcome [of "[(''technical'', []), (''action_verbs'', []),
      (''soft_skills'', []), (''quantifiers'', []), (''other'', [])]" ks]
  by (simp add: categorize_keywords_def result_categories_def)

text \<open>
  Claim C7, evaluated where the code fails. The keyword \<open>agile\<close> matches the category
  \<open>technical_skills\<close> of the membership lists, but the dictionary that collects the
  result has the key \<open>technical\<close> instead: the append raises \<open>KeyError\<close>, and the
  keyword advice raises with it.
\<close>

theorem categorize_keywords_key_error:
  "categorize_keywords [''agile''] = Inl (KeyError ''technical_skills'')
   \<and> analyze_keywords [''agile''] [] = Inl (KeyError ''technical_skills'')
   \<and> first_matching_category keyword_categories (py_lower ''agile'') = Some ''technical_skills''
   \<and> map_of [(''technical'', []), (''action_verbs'', []), (''soft_skills'', []),
              (''quantifiers'', []), (''other'', [] :: string list)] ''technical_skills'' = None"
  by code_simp

lemma agile_missing:
  "find_missing_keywords example_runtime example_scorer
     (Some ''python developer'') (Some ''agile python team'') = [''agile'', ''team'']"
  by code_simp

lemma agile_keywords_fail:
  "analyze_keywords [''agile'', ''team'']
     (take 15 (extract_keywords example_runtime example_scorer (Some ''python developer'') 20))
   = Inl (KeyError ''technical_skills'')"
  by code_simp

text \<open>
  Claim C10, evaluated where the code fails. For the resume \<open>python developer\<close> and the
  job description \<open>agile python team\<close> the analysis lists \<open>agile\<close> among the missing
  keywords; the section analysis reports all four sections absent, and then
  \<open>generate_recommendations\<close> raises \<open>KeyError\<close> in the keyword advice instead of
  returning its report.
\<close>

theorem generate_recommendations_key_error:
  "(let analysis = calculate_ats_score example_runtime example_scorer
                     (Some ''python developer'') (Some ''agile python team'')
    in field_str_list analysis ''missing_keywords'' = [''agile'', ''team'']
       \<and> analyze_sections analysis = Inr all_sections_absent
       \<and> generate_recommendations analysis = Inl (KeyError ''technical_skills''))"
  unfolding Let_def
  using generate_recommendations_fails_with_keywords [of example_runtime example_scorer
      "Some ''python developer''" "Some ''agile python team''" "KeyError ''technical_skills''"]
    agile_keywords_fail
  by (simp add: field_str_list_keywords agile_missing analyze_sections_scorer)

section \<open>Properties of the score\<close>

lemma round_half_even_of_int: "round_half_even (of_int n) = n"
  by (simp add: round_half_even_def)

lemma round_half_even_mono_int_le:
  assumes "x \<le> of_int n"
  shows "round_half_even x \<le> n"
proof (cases "x = of_int n")
  case True
  then show ?thesis by (simp add: round_half_even_of_int)
next
  case False
  with assms have "x < of_int n" by simp
  then have "\<lfloor>x\<rfloor> < n" by (simp add: floor_less_iff)
  then have "\<lfloor>x\<rfloor> + 1 \<le> n" by simp
  moreover have "round_half_even x \<le> \<lfloor>x\<rfloor> + 1"
    by (simp add: round_half_even_def Let_def)
  ultimately show ?thesis by linarith
qed

lemma round_half_even_ge_floor: "\<lfloor>x\<rfloor> \<le> round_half_even x"
  by (simp add: round_half_even_def Let_def)

lemma py_round_range:
  assumes "0 \<le> x" and "x \<le> 100"
  shows "0 \<le> py_round x 2 \<and> py_round x 2 \<le> 100"
proof -
  have "0 \<le> \<lfloor>x * 100\<rfloor>" using assms(1) by simp
  then have lo: "0 \<le> round_half_even (x * 100)"
    using round_half_even_ge_floor [of "x * 100"] by linarith
  have "x * 100 \<le> of_int 10000" using assms(2) by simp
  then have hi: "round_half_even (x * 100) \<le> 10000"
    by (rule round_half_even_mono_int_le)
  have "py_round x 2 = of_int (round_half_even (x * 100)) / 100"
    by (simp add: py_round_def)
  moreover have "(0::real) \<le> of_int (round_half_even (x * 100))" using lo by simp
  moreover have "of_int (round_half_even (x * 100)) \<le> (10000::real)" using hi by simp
  ultimately show ?thesis by simp
qed

lemma py_round_zero: "py_round 0 n = 0"
  by (simp add: py_round_def round_half_even_def)

lemma similarity_zero_on_empty:
  assumes "preprocess_text resume_text = [] \<or> preprocess_text job_description = []"
  shows "calculate_tfidf_similarity self resume_text job_description = 0"
    and "calculate_huggingface_similarity self resume_text job_description = 0"
  using assms
  by (auto simp add: calculate_tfidf_similarity_def calculate_huggingface_similarity_def
      Let_def split: option.splits)

lemma ats_score_zero_on_empty:
  assumes "preprocess_text resume_text = [] \<or> preprocess_text job_description = []"
  shows "map_of (calculate_ats_score rt self resume_text job_description) ''ats_score''
           = Some (PyFloat 0)"
  using similarity_zero_on_empty [OF assms, of self]
  by (simp add: calculate_ats_score_ats_score calculate_hybrid_similarity_def Let_def
      py_round_zero)

section \<open>Properties of the cosine\<close>

lemma dot_Cons: "dot (a # x) (b # y) = a * b + dot x y"
  by (simp add: dot_def)

lemma dot_Nil: "dot [] y = 0" "dot x [] = 0"
  by (simp_all add: dot_def)

lemma dot_self_nonneg: "0 \<le> dot x x"
  by (induction x) (simp_all add: dot_Nil dot_Cons)

lemma dot_scale: "dot (map (\<lambda>v. v / c) x) (map (\<lambda>v. v / d) y) = dot x y / (c * d)"
proof (induction x arbitrary: y)
  case Nil
  show ?case by (simp add: dot_Nil)
next
  case (Cons a x)
  show ?case
  proof (cases y)
    case Nil
    then show ?thesis by (simp add: dot_Nil)
  next
    case (Cons b y')
    then show ?thesis
      by (simp add: dot_Cons Cons.IH add_divide_distrib)
  qed
qed

lemma dot_am_gm: "length x = length y \<Longrightarrow> 2 * dot x y \<le> dot x x + dot y y"
proof (induction x y rule: list_induct2)
  case Nil
  show ?case by (simp add: dot_Nil)
next
  case (Cons a x b y)
  have "2 * (a * b) \<le> a * a + b * b"
    using sum_squares_bound [of a b] by (simp add: power2_eq_square)
  with Cons.IH show ?case by (simp add: dot_Cons algebra_simps)
qed

lemma dot_nonneg: "\<forall>v \<in> set x. 0 \<le> v \<Longrightarrow> \<forall>v \<in> set y. 0 \<le> v \<Longrightarrow> 0 \<le> dot x y"
proof (induction x arbitrary: y)
  case Nil
  show ?case by (simp add: dot_Nil)
next
  case (Cons a x)
  show ?case
  proof (cases y)
    case Nil
    then show ?thesis by (simp add: dot_Nil)
  next
    case (Cons b y')
    with Cons.prems Cons.IH [of y'] show ?thesis by (simp add: dot_Cons)
  qed
qed

lemma dot_l2_normalize_self: "dot (l2_normalize x) (l2_normalize x) \<le> 1"
proof -
  define n where "n = sqrt (dot x x)"
  have nn: "n * n = dot x x" using dot_self_nonneg [of x] by (simp add: n_def)
  show ?thesis
  proof (cases "n = 0")
    case True
    with nn have "dot x x = 0" by simp
    with True show ?thesis
      by (simp add: l2_normalize_def Let_def n_def [symmetric] dot_scale)
  next
    case False
    then show ?thesis
      by (simp add: l2_normalize_def Let_def n_def [symmetric] dot_scale nn [symmetric])
  qed
qed

lemma length_l2_normalize: "length (l2_normalize x) = length x"
  by (simp add: l2_normalize_def Let_def)

lemma cosine_similarity_le_1: "cosine_similarity x y = Inr s \<Longrightarrow> s \<le> 1"
proof -
  assume a: "cosine_similarity x y = Inr s"
  then have len: "length x = length y" and s: "s = dot (l2_normalize x) (l2_normalize y)"
    by (auto simp add: cosine_similarity_def split: if_splits)
  have "2 * s \<le> dot (l2_normalize x) (l2_normalize x) + dot (l2_normalize y) (l2_normalize y)"
    unfolding s by (rule dot_am_gm) (simp add: length_l2_normalize len)
  with dot_l2_normalize_self [of x] dot_l2_normalize_self [of y] show ?thesis by linarith
qed

lemma set_l2_normalize_nonneg:
  assumes "\<forall>v \<in> set x. 0 \<le> v"
  shows "\<forall>v \<in> set (l2_normalize x). 0 \<le> v"
  using assms dot_self_nonneg [of x] by (auto simp add: l2_normalize_def Let_def)

lemma cosine_similarity_nonneg:
  "\<forall>v \<in> set x. 0 \<le> v \<Longrightarrow> \<forall>v \<in> set y. 0 \<le> v \<Longrightarrow> cosine_similarity x y = Inr s \<Longrightarrow> 0 \<le> s"
  by (auto simp add: cosine_similarity_def dot_nonneg set_l2_normalize_nonneg split: if_splits)


lemma encoded_similarity_le_1: "encoded_similarity enc a b = Inr s \<Longrightarrow> s \<le> 1"
  by (auto simp add: encoded_similarity_def cosine_similarity_le_1 split: sum.splits)

lemma calculate_tfidf_similarity_le_1:
  "calculate_tfidf_similarity self resume_text job_description \<le> 1"
  by (auto simp add: calculate_tfidf_similarity_def Let_def encoded_similarity_le_1
      split: sum.splits)

lemma calculate_huggingface_similarity_le_1:
  "calculate_huggingface_similarity self resume_text job_description \<le> 1"
  by (auto simp add: calculate_huggingface_similarity_def Let_def encoded_similarity_le_1
      split: sum.splits option.splits)

lemma calculate_tfidf_similarity_nonneg:
  assumes "nonneg_weights self"
  shows "0 \<le> calculate_tfidf_similarity self resume_text job_description"
proof -
  have "\<And>a b s. encoded_similarity (vectorizer self) a b = Inr s \<Longrightarrow> 0 \<le> s"
  proof -
    fix a b s assume e: "encoded_similarity (vectorizer self) a b = Inr s"
    then obtain x y where x: "vectorizer self a = Inr x" and y: "vectorizer self b = Inr y"
      and c: "cosine_similarity x y = Inr s"
      by (auto simp add: encoded_similarity_def split: sum.splits)
    from assms x y have "\<forall>v \<in> set x. 0 \<le> v" "\<forall>v \<in> set y. 0 \<le> v"
      by (auto simp add: nonneg_weights_def)
    with c show "0 \<le> s" by (rule cosine_similarity_nonneg [rotated 2])
  qed
  then show ?thesis
    by (auto simp add: calculate_tfidf_similarity_def Let_def split: sum.splits)
qed

lemma ats_score_range_when_nonneg:
  assumes "nonneg_weights self"
    and "0 \<le> calculate_huggingface_similarity self resume_text job_description"
  shows "\<exists>a. map_of (calculate_ats_score rt self resume_text job_description) ''ats_score''
               = Some (PyFloat a) \<and> 0 \<le> a \<and> a \<le> 100"
proof -
  define t where "t = calculate_tfidf_similarity self resume_text job_description"
  define h where "h = calculate_huggingface_similarity self resume_text job_description"
  define c where "c = combined_similarity
      (calculate_hybrid_similarity self resume_text job_description)"
  have t: "0 \<le> t" "t \<le> 1"
    using calculate_tfidf_similarity_nonneg [OF assms(1)] calculate_tfidf_similarity_le_1
    by (simp_all add: t_def)
  have h: "0 \<le> h" "h \<le> 1"
    using assms(2) calculate_huggingface_similarity_le_1 by (simp_all add: h_def)
  have "c = 7 / 10 * h + 3 / 10 * t \<or> c = t"
    by (simp add: c_def calculate_hybrid_similarity_def Let_def t_def h_def)
  with t h have "0 \<le> c * 100" "c * 100 \<le> 100" by auto
  then have "0 \<le> py_round (c * 100) 2 \<and> py_round (c * 100) 2 \<le> 100"
    by (rule py_round_range)
  then show ?thesis
    by (simp add: calculate_ats_score_ats_score c_def)
qed

section \<open>The score on concrete inputs\<close>

lemma example_texts_clean:
  "preprocess_text (Some ''python developer'') = ''python developer''"
  "preprocess_text (Some ''sales manager'') = ''sales manager''"
  "preprocess_text (Some ''django engineer'') = ''django engineer''"
  "preprocess_text (Some ''python'') = ''python''"
  by code_simp+

lemma example_counts:
  "map (\<lambda>w. count_list (split_words ''python developer'') w) [''python'', ''django'', ''aws'']
     = [1, 0, 0]"
  "map (\<lambda>w. count_list (split_words ''sales manager'') w) [''python'', ''django'', ''aws'']
     = [0, 0, 0]"
  "map (\<lambda>w. count_list (split_words ''django engineer'') w) [''python'', ''django'', ''aws'']
     = [0, 1, 0]"
  "map (\<lambda>w. count_list (split_words ''python'') w) [''python'', ''django'', ''aws'']
     = [1, 0, 0]"
  by code_simp+

lemma example_vectors:
  "example_vectorizer ''python developer'' = Inr [1, 0, 0]"
  "example_vectorizer ''sales manager'' = Inr [0, 0, 0]"
  "example_vectorizer ''django engineer'' = Inr [0, 1, 0]"
  "example_vectorizer ''python'' = Inr [1, 0, 0]"
  using example_counts by (simp_all add: example_vectorizer_def)

lemma example_in:
  "py_in ''python'' ''python developer''"
  "\<not> py_in ''python'' ''sales manager''"
  "\<not> py_in ''django'' ''sales manager''"
  "\<not> py_in ''python'' ''django engineer''"
  "py_in ''django'' ''django engineer''"
  by code_simp+

lemma example_embeddings:
  "example_encode ''python developer'' = Inr [1, 0]"
  "example_encode ''sales manager'' = Inr [- (3 / 5), 4 / 5]"
  "example_encode ''django engineer'' = Inr [3 / 5, 4 / 5]"
  by (simp_all add: example_encode_def example_in)

lemma example_cosines:
  "cosine_similarity [1, 0, 0] [0, 0, 0] = Inr 0"
  "cosine_similarity [1, 0, 0] [0, 1, 0] = Inr 0"
  "cosine_similarity [1, 0, 0] [1, 0, 0] = Inr 1"
  "cosine_similarity [1, 0] [- (3 / 5), 4 / 5] = Inr (- (3 / 5))"
  "cosine_similarity [1, 0] [3 / 5, 4 / 5] = Inr (3 / 5)"
  by (simp_all add: cosine_similarity_def l2_normalize_def dot_def Let_def)

lemma py_round_of_int: "py_round (of_int n) 2 = of_int n"
proof -
  have "of_int n * (100::real) = of_int (n * 100)" by simp
  then have "round_half_even (of_int n * 100) = n * 100"
    by (simp only: round_half_even_of_int)
  then show ?thesis by (simp add: py_round_def)
qed

text \<open>
  Claim C2, evaluated where the code fails. The embedding vectors of the two texts have
  the cosine \<open>-3/5\<close> and the TF-IDF rows share no term: the combined score is
  \<open>0.7 * (-3/5)\<close> and the reported \<open>ats_score\<close> is \<open>-42\<close>, below 0.
\<close>

theorem ats_score_negative:
  "map_of (calculate_ats_score example_runtime example_scorer
             (Some ''python developer'') (Some ''sales manager'')) ''ats_score''
     = Some (PyFloat (- 42))
   \<and> calculate_huggingface_similarity example_scorer
        (Some ''python developer'') (Some ''sales manager'') = - (3 / 5)
   \<and> calculate_tfidf_similarity example_scorer
        (Some ''python developer'') (Some ''sales manager'') = 0"
proof -
  have t: "calculate_tfidf_similarity example_scorer
        (Some ''python developer'') (Some ''sales manager'') = 0"
    by (simp add: calculate_tfidf_similarity_def example_texts_clean example_scorer_def
        encoded_similarity_def example_vectors example_cosines)
  have h: "calculate_huggingface_similarity example_scorer
        (Some ''python developer'') (Some ''sales manager'') = - (3 / 5)"
    by (simp add: calculate_huggingface_similarity_def example_texts_clean example_scorer_def
        encoded_similarity_def example_embeddings example_cosines)
  have c: "combined_similarity (calculate_hybrid_similarity example_scorer
        (Some ''python developer'') (Some ''sales manager'')) * 100 = of_int (- 42)"
    by (simp add: calculate_hybrid_similarity_def Let_def t h) (simp add: example_scorer_def)
  show ?thesis
    by (simp only: calculate_ats_score_ats_score c py_round_of_int t h) simp
qed

section \<open>Witnesses on concrete inputs\<close>

text \<open>Witness for claim C6: punctuation, repeated spaces and the ends of the text.\<close>

theorem preprocess_text_refines_spec_witness:
  "preprocess_text (Some ''  Hello,  World! C++ '') = ''hello world c''
   \<and> spec_normalize (Some ''  Hello,  World! C++ '') = ''hello world c''"
proof -
  have "spec_normalize (Some ''  Hello,  World! C++ '') = ''hello world c''"
    by code_simp
  then show ?thesis
    using preprocess_text_refines_spec [of "Some ''  Hello,  World! C++ ''"] by simp
qed

text \<open>Witness for claim C5: \<open>python\<close> occurs twice and comes first; \<open>django\<close> wins the tie among the others by its first occurrence.\<close>

theorem extract_keywords_ranked_witness:
  "(0::int) \<le> 2
   \<and> extract_keywords example_runtime example_scorer
        (Some ''Django developer with Python and the python experience'') 2
       = [''python'', ''django'']"
proof -
  have e: "take (nat 2) (spec_ranked (spec_candidates example_runtime example_scorer
          (Some ''Django developer with Python and the python experience'')))
        = [''python'', ''django'']"
    by code_simp
  have z: "(0::int) \<le> 2" by simp
  have "extract_keywords example_runtime example_scorer
          (Some ''Django developer with Python and the python experience'') 2
        = take (nat 2) (spec_ranked (spec_candidates example_runtime example_scorer
            (Some ''Django developer with Python and the python experience'')))"
    using extract_keywords_ranked [of example_runtime example_scorer
        "Some ''Django developer with Python and the python experience''" 2] z
    by blast
  with e z show ?thesis by (simp only: simp_thms)
qed

text \<open>Witness for claim C9.\<close>

theorem tfidf_similarity_symmetric_witness:
  "calculate_tfidf_similarity example_scorer (Some ''python developer'') (Some ''python'') = 1
   \<and> calculate_tfidf_similarity example_scorer (Some ''python'') (Some ''python developer'') = 1"
proof -
  have "calculate_tfidf_similarity example_scorer (Some ''python developer'') (Some ''python'') = 1"
    by (simp add: calculate_tfidf_similarity_def example_texts_clean example_scorer_def
        encoded_similarity_def example_vectors example_cosines)
  then show ?thesis
    using tfidf_similarity_symmetric [of example_scorer "Some ''python developer''"
        "Some ''python''"]
    by simp
qed

text \<open>Witness for claim C1: a hybrid score of \<open>0.7 * 0.6 + 0.3 * 0\<close>.\<close>

theorem hybrid_score_policy_witness:
  "combined_similarity (calculate_hybrid_similarity example_scorer
       (Some ''python developer'') (Some ''django engineer'')) = 21 / 50
   \<and> method_label (calculate_hybrid_similarity example_scorer
       (Some ''python developer'') (Some ''django engineer'')) = ''hybrid_huggingface_tfidf''
   \<and> map_of (calculate_ats_score example_runtime example_scorer
       (Some ''python developer'') (Some ''django engineer'')) ''ats_score'' = Some (PyFloat 42)"
proof -
  let ?r = "calculate_hybrid_similarity example_scorer
       (Some ''python developer'') (Some ''django engineer'')"
  have t: "calculate_tfidf_similarity example_scorer
        (Some ''python developer'') (Some ''django engineer'') = 0"
    by (simp add: calculate_tfidf_similarity_def example_texts_clean example_scorer_def
        encoded_similarity_def example_vectors example_cosines)
  have h: "calculate_huggingface_similarity example_scorer
        (Some ''python developer'') (Some ''django engineer'') = 3 / 5"
    by (simp add: calculate_huggingface_similarity_def example_texts_clean example_scorer_def
        encoded_similarity_def example_embeddings example_cosines)
  have u: "use_huggingface example_scorer \<and> hf_model example_scorer \<noteq> None"
    by (simp add: example_scorer_def)
  have policy: "tfidf_similarity ?r = calculate_tfidf_similarity example_scorer
          (Some ''python developer'') (Some ''django engineer'')
      \<and> huggingface_similarity ?r = calculate_huggingface_similarity example_scorer
          (Some ''python developer'') (Some ''django engineer'')
      \<and> combined_similarity ?r = (7 / 10) * huggingface_similarity ?r
          + (3 / 10) * tfidf_similarity ?r
      \<and> method_label ?r = ''hybrid_huggingface_tfidf''
      \<and> map_of (calculate_ats_score example_runtime example_scorer
            (Some ''python developer'') (Some ''django engineer'')) ''ats_score''
          = Some (PyFloat (py_round (combined_similarity ?r * 100) 2))"
    using hybrid_score_policy [of example_scorer "Some ''python developer''"
        "Some ''django engineer''" example_runtime] u
    unfolding Let_def by (simp only: if_True simp_thms)
  have c: "combined_similarity ?r = 21 / 50"
  proof -
    have "combined_similarity ?r = (7 / 10) * (3 / 5) + (3 / 10) * 0"
      using policy by (simp only: t h)
    then show ?thesis by simp
  qed
  have r: "py_round (21 / 50 * 100) 2 = 42"
    using py_round_of_int [of 42] by simp
  have a: "map_of (calculate_ats_score example_runtime example_scorer
            (Some ''python developer'') (Some ''django engineer'')) ''ats_score''
          = Some (PyFloat 42)"
    using policy by (simp only: c r)
  from c a policy show ?thesis by (simp only: simp_thms)
qed

text \<open>Witness for claim C8: one of two job keywords is in the resume.\<close>

theorem keyword_coverage_guarded_witness:
  "keyword_coverage_of
     (extract_keywords example_runtime example_scorer (Some ''python developer'') 20)
     (extract_keywords example_runtime example_scorer (Some ''python django'') 20) = Inr 50
   \<and> map_of (calculate_ats_score example_runtime example_scorer
        (Some ''python developer'') (Some ''python django'')) ''keyword_coverage''
       = Some (PyFloat 50)"
proof -
  have rk: "extract_keywords example_runtime example_scorer (Some ''python developer'') 20
              = [''python'', ''developer'']"
    by code_simp
  have jk: "extract_keywords example_runtime example_scorer (Some ''python django'') 20
              = [''python'', ''django'']"
    by code_simp
  have i: "set [''python'', ''developer''] \<inter> set [''python'', ''django''] = {''python''}"
    by auto
  have pct: "(if set [''python'', ''django''] = {} then 0
              else 100 * real (card (set [''python'', ''developer''] \<inter> set [''python'', ''django'']))
                   / real (card (set [''python'', ''django'']))) = (50 :: real)"
    unfolding i by simp
  have r: "py_round 50 2 = 50" using py_round_of_int [of 50] by simp
  show ?thesis
    using keyword_coverage_guarded [of example_runtime example_scorer
        "Some ''python developer''" "Some ''python django''"]
    unfolding Let_def rk jk pct r by (simp only: simp_thms)
qed

end
